theory Spec2Isabelle
  imports Complex_Main "HOL-Library.Word"
begin

unbundle bit_operations_syntax

section \<open>Game data tables and address helpers (smb\_game\_data.py)\<close>

text \<open>
  Python integers are unbounded and are modelled as \<^typ>\<open>int\<close>; region kinds are the
  Python strings \<open>"light"\<close>, \<open>"dark"\<close>, \<open>"warp"\<close> and are kept as strings, so that
  an unknown region kind is simply any other string. A dictionary is a map, and a lookup
  with \<open>.get\<close> is an application of the map.
\<close>

definition BASE_ID :: int where
  "BASE_ID = 7700000"

definition FLAG_BANDAGE :: int where
  "FLAG_BANDAGE = 0x01"

definition FLAG_COMPLETE :: int where
  "FLAG_COMPLETE = 0x02"

definition FLAG_WARP :: int where
  "FLAG_WARP = 0x08"

definition MASK_CLEAR_BANDAGE :: int where
  "MASK_CLEAR_BANDAGE = (NOT FLAG_BANDAGE) AND 0xFF"

definition MASK_CLEAR_WARP :: int where
  "MASK_CLEAR_WARP = (NOT FLAG_WARP) AND 0xFF"

text \<open>\<open>WORLD_BASES\<close> as smb\_game\_data.py declares it.\<close>

definition WORLD_BASES_data :: "int \<Rightarrow> int option" where
  "WORLD_BASES_data =
     [1 \<mapsto> 0x0060, 2 \<mapsto> 0x02D0, 3 \<mapsto> 0x0540, 4 \<mapsto> 0x07B0,
      5 \<mapsto> 0x0A20, 6 \<mapsto> 0x0C90, 7 \<mapsto> 0x0F00]"

definition LIGHT_OFFSET :: int where
  "LIGHT_OFFSET = 0x000"

definition DARK_OFFSET :: int where
  "DARK_OFFSET = 0x0F0"

definition WARP_OFFSET :: int where
  "WARP_OFFSET = 0x1E0"

definition SLOT_SIZE :: int where
  "SLOT_SIZE = 0x0C"

definition TIME_BYTE :: int where
  "TIME_BYTE = 0"

definition COMP_BYTE :: int where
  "COMP_BYTE = 4"

definition NUM_WARP_SLOTS :: int where
  "NUM_WARP_SLOTS = 12"

definition NUM_LEVELS :: "int \<Rightarrow> int option" where
  "NUM_LEVELS = [1 \<mapsto> 20, 2 \<mapsto> 20, 3 \<mapsto> 20, 4 \<mapsto> 20, 5 \<mapsto> 20, 6 \<mapsto> 5, 7 \<mapsto> 20]"

text \<open>
  The helpers of smb\_game\_data.py read the module-level dictionary \<open>WORLD_BASES\<close> when
  they are called. The client later assigns \<open>WORLD_BASES[7]\<close>, so the dictionary is a
  parameter \<open>wbs\<close> of the embedded helpers.
\<close>

definition gd_slot_addr :: "(int \<Rightarrow> int option) \<Rightarrow> int \<Rightarrow> int \<Rightarrow> string \<Rightarrow> int option" where
  "gd_slot_addr wbs world level_index region =
     (case wbs world of
        None \<Rightarrow> None
      | Some wb \<Rightarrow>
          if region = ''light'' then Some (wb + LIGHT_OFFSET + level_index * SLOT_SIZE)
          else if region = ''dark'' then Some (wb + DARK_OFFSET + level_index * SLOT_SIZE)
          else if region = ''warp'' then Some (wb + WARP_OFFSET + level_index * SLOT_SIZE)
          else None)"

definition gd_comp_addr :: "(int \<Rightarrow> int option) \<Rightarrow> int \<Rightarrow> int \<Rightarrow> string \<Rightarrow> int option" where
  "gd_comp_addr wbs world level_index region =
     (case gd_slot_addr wbs world level_index region of
        Some sa \<Rightarrow> Some (sa + COMP_BYTE)
      | None \<Rightarrow> None)"

definition gd_time_addr :: "(int \<Rightarrow> int option) \<Rightarrow> int \<Rightarrow> int \<Rightarrow> string \<Rightarrow> int option" where
  "gd_time_addr wbs world level_index region =
     (case gd_slot_addr wbs world level_index region of
        Some sa \<Rightarrow> Some (sa + TIME_BYTE)
      | None \<Rightarrow> None)"

section \<open>W6/W7 address corrections (smb\_ap\_client.py)\<close>

text \<open>The client executes \<open>WORLD_BASES[7] = 0x0D08\<close> right after its imports.\<close>

definition WORLD_BASES :: "int \<Rightarrow> int option" where
  "WORLD_BASES = WORLD_BASES_data(7 \<mapsto> 0x0D08)"

definition W6_DARK_OFFSET :: int where
  "W6_DARK_OFFSET = 0x3C"

text \<open>
  \<open>WORLD_BASES[6]\<close> is a subscript, which raises \<open>KeyError\<close> on a missing key. Key 6 is
  present in the table, so that branch is dead; it is written out as \<open>None\<close>.
\<close>

definition comp_addr :: "int \<Rightarrow> int \<Rightarrow> string \<Rightarrow> int option" where
  "comp_addr world index region =
     (if world = 6 \<and> region = ''dark'' then
        (case WORLD_BASES 6 of
           Some wb6 \<Rightarrow> Some (wb6 + W6_DARK_OFFSET + index * SLOT_SIZE + COMP_BYTE)
         | None \<Rightarrow> None)
      else if world = 6 \<and> region = ''warp'' then None
      else if world = 7 \<and> region = ''warp'' then None
      else gd_comp_addr WORLD_BASES world index region)"

definition time_addr :: "int \<Rightarrow> int \<Rightarrow> string \<Rightarrow> int option" where
  "time_addr world index region =
     (if world = 6 \<and> region = ''dark'' then
        (case WORLD_BASES 6 of
           Some wb6 \<Rightarrow> Some (wb6 + W6_DARK_OFFSET + index * SLOT_SIZE + TIME_BYTE)
         | None \<Rightarrow> None)
      else if world = 6 \<and> region = ''warp'' then None
      else if world = 7 \<and> region = ''warp'' then None
      else gd_time_addr WORLD_BASES world index region)"


section \<open>Python floats\<close>

text \<open>
  A time read from the save is a Python float: a finite number, an infinity or NaN. Every
  comparison with NaN is false, which decides the branches of the A+ tests. Finite
  arithmetic is exact in the model; rounding is left out.
\<close>

datatype pyfloat = Finite real | PosInf | NegInf | NaN

text \<open>\<open>fl_less a b\<close> is Python's \<open>a < b\<close>, \<open>fl_le a b\<close> is \<open>a <= b\<close>.\<close>

fun fl_less :: "pyfloat \<Rightarrow> pyfloat \<Rightarrow> bool" where
  "fl_less NaN _ = False"
| "fl_less _ NaN = False"
| "fl_less (Finite x) (Finite y) = (x < y)"
| "fl_less NegInf NegInf = False"
| "fl_less NegInf _ = True"
| "fl_less _ NegInf = False"
| "fl_less PosInf _ = False"
| "fl_less _ PosInf = True"

fun fl_le :: "pyfloat \<Rightarrow> pyfloat \<Rightarrow> bool" where
  "fl_le NaN _ = False"
| "fl_le _ NaN = False"
| "fl_le (Finite x) (Finite y) = (x \<le> y)"
| "fl_le NegInf _ = True"
| "fl_le _ NegInf = False"
| "fl_le _ PosInf = True"
| "fl_le PosInf _ = False"



text \<open>
  The value of a 32-bit pattern read as an IEEE 754 single (what \<open>read_float\<close> unpacks):
  sign bit, eight exponent bits, 23 fraction bits.
\<close>

definition float_of_bits :: "int \<Rightarrow> pyfloat" where
  "float_of_bits v =
     (let sign = v div 2 ^ 31;
          e = (v div 2 ^ 23) mod 256;
          f = v mod 2 ^ 23;
          s = (if sign = 0 then 1 else - 1 :: real)
      in
      if e = 255 then (if f = 0 then (if sign = 0 then PosInf else NegInf) else NaN)
      else if e = 0 then Finite (s * real_of_int f / 2 ^ 149)
      else if e \<ge> 150 then Finite (s * real_of_int (2 ^ 23 + f) * 2 ^ nat (e - 150))
      else Finite (s * real_of_int (2 ^ 23 + f) / 2 ^ nat (150 - e)))"

section \<open>The game interface (class GameInterface)\<close>

text \<open>
  The memory of the game process, as pymem sees it: bytes at addresses, each address
  readable or not and writable or not. An access raises when one of its bytes is not
  accessible; an access of four bytes is little-endian. \<open>self.pm\<close> is \<open>None\<close> before
  \<open>connect\<close> and after \<open>disconnect\<close>; every attribute access on it then raises
  \<open>AttributeError\<close>.

  Packing a Python float into four bytes (\<open>write_float\<close>) rounds to the nearest single;
  the conversion is the library's and is the parameter \<open>pack_float\<close> of the interface.
\<close>

datatype error =
    AttributeError | MemoryReadError | MemoryWriteError | KeyError | IndexError
  | ZeroDivisionError | TypeError | ConnectionClosed

record process_memory =
  byte_at :: "int \<Rightarrow> 8 word"
  readable :: "int \<Rightarrow> bool"
  writable :: "int \<Rightarrow> bool"

record GameInterface =
  pm :: "process_memory option"
  base :: int
  game_connected :: bool
  pack_float :: "pyfloat \<Rightarrow> int"

definition readable4 :: "process_memory \<Rightarrow> int \<Rightarrow> bool" where
  "readable4 m a \<longleftrightarrow> readable m a \<and> readable m (a + 1) \<and> readable m (a + 2) \<and> readable m (a + 3)"

definition writable4 :: "process_memory \<Rightarrow> int \<Rightarrow> bool" where
  "writable4 m a \<longleftrightarrow> writable m a \<and> writable m (a + 1) \<and> writable m (a + 2) \<and> writable m (a + 3)"

definition le_uint :: "process_memory \<Rightarrow> int \<Rightarrow> int" where
  "le_uint m a =
     uint (byte_at m a) + 256 * uint (byte_at m (a + 1)) + 65536 * uint (byte_at m (a + 2))
       + 16777216 * uint (byte_at m (a + 3))"

definition store_le :: "process_memory \<Rightarrow> int \<Rightarrow> int \<Rightarrow> process_memory" where
  "store_le m a v =
     m\<lparr>byte_at := (byte_at m)
          (a := word_of_int v,
           a + 1 := word_of_int (v div 256),
           a + 2 := word_of_int (v div 65536),
           a + 3 := word_of_int (v div 16777216))\<rparr>"

definition pm_read_uchar :: "GameInterface \<Rightarrow> int \<Rightarrow> error + int" where
  "pm_read_uchar game a =
     (case pm game of
        None \<Rightarrow> Inl AttributeError
      | Some m \<Rightarrow> if readable m a then Inr (uint (byte_at m a)) else Inl MemoryReadError)"

definition pm_read_uint :: "GameInterface \<Rightarrow> int \<Rightarrow> error + int" where
  "pm_read_uint game a =
     (case pm game of
        None \<Rightarrow> Inl AttributeError
      | Some m \<Rightarrow> if readable4 m a then Inr (le_uint m a) else Inl MemoryReadError)"


definition pm_read_float :: "GameInterface \<Rightarrow> int \<Rightarrow> error + pyfloat" where
  "pm_read_float game a =
     (case pm game of
        None \<Rightarrow> Inl AttributeError
      | Some m \<Rightarrow> if readable4 m a then Inr (float_of_bits (le_uint m a)) else Inl MemoryReadError)"

text \<open>
  A write stores the value in the width of the cell: a byte keeps the low eight bits, as
  \<open>ctypes.c_ubyte\<close> does.
\<close>

definition pm_write_uchar :: "GameInterface \<Rightarrow> int \<Rightarrow> int \<Rightarrow> error + GameInterface" where
  "pm_write_uchar game a v =
     (case pm game of
        None \<Rightarrow> Inl AttributeError
      | Some m \<Rightarrow>
          if writable m a then Inr (game\<lparr>pm := Some (m\<lparr>byte_at := (byte_at m)(a := word_of_int v)\<rparr>)\<rparr>)
          else Inl MemoryWriteError)"

definition pm_write_uint :: "GameInterface \<Rightarrow> int \<Rightarrow> int \<Rightarrow> error + GameInterface" where
  "pm_write_uint game a v =
     (case pm game of
        None \<Rightarrow> Inl AttributeError
      | Some m \<Rightarrow>
          if writable4 m a then Inr (game\<lparr>pm := Some (store_le m a v)\<rparr>)
          else Inl MemoryWriteError)"

definition pm_write_float :: "GameInterface \<Rightarrow> int \<Rightarrow> pyfloat \<Rightarrow> error + GameInterface" where
  "pm_write_float game a x =
     (case pm game of
        None \<Rightarrow> Inl AttributeError
      | Some m \<Rightarrow>
          if writable4 m a then Inr (game\<lparr>pm := Some (store_le m a (pack_float game x))\<rparr>)
          else Inl MemoryWriteError)"






definition ADDR_save_ptr :: int where
  "ADDR_save_ptr = 0x30a380"

definition ADDR_world_unlock :: int where
  "ADDR_world_unlock = 0x3954"



definition CHARACTER_BITMASK_OFFSET :: int where
  "CHARACTER_BITMASK_OFFSET = 0x3950"




definition get_sp :: "GameInterface \<Rightarrow> int" where
  "get_sp game = (case pm_read_uint game (base game + ADDR_save_ptr) of Inr p \<Rightarrow> p | Inl _ \<Rightarrow> 0)"

definition read_comp :: "GameInterface \<Rightarrow> int \<Rightarrow> int \<Rightarrow> int \<Rightarrow> string \<Rightarrow> int" where
  "read_comp game sp world index region =
     (case comp_addr world index region of
        None \<Rightarrow> - 1
      | Some ca \<Rightarrow>
          if sp = 0 then - 1
          else (case pm_read_uchar game (sp + ca) of Inr v \<Rightarrow> v | Inl _ \<Rightarrow> - 1))"

definition write_comp :: "GameInterface \<Rightarrow> int \<Rightarrow> int \<Rightarrow> int \<Rightarrow> string \<Rightarrow> int \<Rightarrow> GameInterface" where
  "write_comp game sp world index region val =
     (case comp_addr world index region of
        None \<Rightarrow> game
      | Some ca \<Rightarrow>
          if sp = 0 then game
          else (case pm_write_uchar game (sp + ca) val of Inr game' \<Rightarrow> game' | Inl _ \<Rightarrow> game))"

definition read_time :: "GameInterface \<Rightarrow> int \<Rightarrow> int \<Rightarrow> int \<Rightarrow> string \<Rightarrow> pyfloat" where
  "read_time game sp world level_index region =
     (case time_addr world level_index region of
        None \<Rightarrow> Finite (- 1.0)
      | Some ta \<Rightarrow>
          if sp = 0 then Finite (- 1.0)
          else (case pm_read_float game (sp + ta) of Inr t \<Rightarrow> t | Inl _ \<Rightarrow> Finite (- 1.0)))"

definition write_time :: "GameInterface \<Rightarrow> int \<Rightarrow> int \<Rightarrow> int \<Rightarrow> string \<Rightarrow> pyfloat \<Rightarrow> GameInterface" where
  "write_time game sp world level_index region val =
     (case time_addr world level_index region of
        None \<Rightarrow> game
      | Some ta \<Rightarrow>
          if sp = 0 then game
          else (case pm_write_float game (sp + ta) val of Inr game' \<Rightarrow> game' | Inl _ \<Rightarrow> game))"

text \<open>
  \<open>read_warp_slots\<close> reads the twelve completion bytes of a world's warp region at the
  offsets it computes itself from \<open>WORLD_BASES\<close>; each read has its own \<open>try\<close>.
\<close>

definition read_warp_slots :: "GameInterface \<Rightarrow> int \<Rightarrow> int \<Rightarrow> int list" where
  "read_warp_slots game sp world =
     (case WORLD_BASES world of
        None \<Rightarrow> replicate (nat NUM_WARP_SLOTS) (- 1)
      | Some wb \<Rightarrow>
          if sp = 0 then replicate (nat NUM_WARP_SLOTS) (- 1)
          else
            map (\<lambda>i. (let ca = wb + WARP_OFFSET + i * SLOT_SIZE + COMP_BYTE in
                       case pm_read_uchar game (sp + ca) of Inr v \<Rightarrow> v | Inl _ \<Rightarrow> - 1))
                [0..NUM_WARP_SLOTS - 1])"

text \<open>In \<open>read_warp_slots_full\<close> one \<open>try\<close> covers both reads of a slot.\<close>

definition read_warp_slots_full :: "GameInterface \<Rightarrow> int \<Rightarrow> int \<Rightarrow> (int \<times> pyfloat) list" where
  "read_warp_slots_full game sp world =
     (case WORLD_BASES world of
        None \<Rightarrow> replicate (nat NUM_WARP_SLOTS) (- 1, Finite (- 1.0))
      | Some wb \<Rightarrow>
          if sp = 0 then replicate (nat NUM_WARP_SLOTS) (- 1, Finite (- 1.0))
          else
            map (\<lambda>i. (let base_off = wb + WARP_OFFSET + i * SLOT_SIZE in
                       case pm_read_uchar game (sp + base_off + COMP_BYTE) of
                         Inl _ \<Rightarrow> (- 1, Finite (- 1.0))
                       | Inr cval \<Rightarrow>
                           (case pm_read_float game (sp + base_off + TIME_BYTE) of
                              Inl _ \<Rightarrow> (- 1, Finite (- 1.0))
                            | Inr tval \<Rightarrow> (cval, tval))))
                [0..NUM_WARP_SLOTS - 1])"

definition set_world_unlock :: "GameInterface \<Rightarrow> int \<Rightarrow> int \<Rightarrow> GameInterface" where
  "set_world_unlock game sp bitmask =
     (case pm_write_uchar game (sp + ADDR_world_unlock) bitmask of Inr game' \<Rightarrow> game' | Inl _ \<Rightarrow> game)"



definition set_char_bitmask :: "GameInterface \<Rightarrow> int \<Rightarrow> int \<Rightarrow> GameInterface" where
  "set_char_bitmask game sp bitmask =
     (case pm_write_uint game (sp + CHARACTER_BITMASK_OFFSET) bitmask of
        Inr game' \<Rightarrow> game' | Inl _ \<Rightarrow> game)"

definition BOSS_COUNTER_OFFSETS :: "int \<Rightarrow> int option" where
  "BOSS_COUNTER_OFFSETS =
     [1 \<mapsto> 0x38D8, 2 \<mapsto> 0x38E4, 3 \<mapsto> 0x38F0, 4 \<mapsto> 0x38FC, 5 \<mapsto> 0x3908, 6 \<mapsto> 0x3914]"

definition BOSS_UNLOCK_THRESHOLDS :: "int \<Rightarrow> int option" where
  "BOSS_UNLOCK_THRESHOLDS = [1 \<mapsto> 17, 2 \<mapsto> 17, 3 \<mapsto> 17, 4 \<mapsto> 17, 5 \<mapsto> 17, 6 \<mapsto> 5]"

definition read_boss_counter :: "GameInterface \<Rightarrow> int \<Rightarrow> int \<Rightarrow> int" where
  "read_boss_counter game sp world =
     (case BOSS_COUNTER_OFFSETS world of
        None \<Rightarrow> - 1
      | Some offset \<Rightarrow>
          if sp = 0 then - 1
          else (case pm_read_uchar game (sp + offset) of Inr v \<Rightarrow> v | Inl _ \<Rightarrow> - 1))"

definition write_boss_counter :: "GameInterface \<Rightarrow> int \<Rightarrow> int \<Rightarrow> int \<Rightarrow> GameInterface" where
  "write_boss_counter game sp world val =
     (case BOSS_COUNTER_OFFSETS world of
        None \<Rightarrow> game
      | Some offset \<Rightarrow>
          if sp = 0 then game
          else (case pm_write_uchar game (sp + offset) (min val 255) of
                  Inr game' \<Rightarrow> game' | Inl _ \<Rightarrow> game))"



section \<open>Bandage tables\<close>

definition LIGHT_BANDAGE_LEVELS :: "int \<Rightarrow> int list option" where
  "LIGHT_BANDAGE_LEVELS =
     [1 \<mapsto> [4, 7, 9, 11, 13, 18, 20],
      2 \<mapsto> [2, 5, 10, 13, 16, 18, 20],
      3 \<mapsto> [1, 2, 4, 10, 11, 18, 20],
      4 \<mapsto> [2, 6, 9, 13, 16, 17, 20],
      5 \<mapsto> [3, 5, 9, 12, 16, 18, 20]]"

definition DARK_BANDAGE_LEVELS :: "int \<Rightarrow> int list option" where
  "DARK_BANDAGE_LEVELS =
     [1 \<mapsto> [3, 5, 10, 14, 15, 17, 19],
      2 \<mapsto> [4, 6, 7, 10, 12, 15, 16],
      3 \<mapsto> [3, 5, 6, 7, 14, 16, 19],
      4 \<mapsto> [3, 4, 8, 10, 14, 18, 19],
      5 \<mapsto> [4, 5, 8, 10, 11, 17, 18]]"

definition WARP_BANDAGE_SLOTS :: "int \<Rightarrow> int list option" where
  "WARP_BANDAGE_SLOTS =
     [1 \<mapsto> [1, 2, 8, 9, 11, 12],
      2 \<mapsto> [1, 3, 7, 8, 10, 12],
      3 \<mapsto> [1, 3, 7, 9, 11, 12],
      4 \<mapsto> [2, 3, 8, 9, 11, 12],
      5 \<mapsto> [2, 3, 7, 9, 10, 11]]"

text \<open>
  An entry of \<open>CORRECTED_BANDAGE_DATA\<close>. The source's entry also carries a display name
  built from the level-name table; the name only feeds log text and is left out.
\<close>

record bandage_entry =
  b_world :: int
  b_index :: int
  b_region :: string
  ap_id :: int

text \<open>\<open>d.get(w, [])\<close> on a dictionary of lists.\<close>

definition get_list :: "(int \<Rightarrow> int list option) \<Rightarrow> int \<Rightarrow> int list" where
  "get_list d w = (case d w of Some xs \<Rightarrow> xs | None \<Rightarrow> [])"

text \<open>
  \<open>build_corrected_bandage_data\<close> runs three loops (light, dark, warp), each over the
  worlds 1..5 and the 1-indexed levels of the table, appending one entry per level and
  counting \<open>ap_idx\<close> up by one per entry: the entries in loop order, numbered from 0.
\<close>

definition bandage_slots_of :: "(int \<Rightarrow> int list option) \<Rightarrow> string \<Rightarrow> (int \<times> int \<times> string) list" where
  "bandage_slots_of tbl region =
     concat (map (\<lambda>w. map (\<lambda>lv_1idx. (w, lv_1idx - 1, region)) (get_list tbl w)) [1..5])"

definition build_corrected_bandage_data :: "bandage_entry list" where
  "build_corrected_bandage_data =
     map (\<lambda>(ap_idx, (w, idx_0, region)).
            \<lparr>b_world = w, b_index = idx_0, b_region = region, ap_id = BASE_ID + 201 + int ap_idx\<rparr>)
         (enumerate 0 (bandage_slots_of LIGHT_BANDAGE_LEVELS ''light''
                       @ bandage_slots_of DARK_BANDAGE_LEVELS ''dark''
                       @ bandage_slots_of WARP_BANDAGE_SLOTS ''warp''))"

definition CORRECTED_BANDAGE_DATA :: "bandage_entry list" where
  "CORRECTED_BANDAGE_DATA = build_corrected_bandage_data"

text \<open>
  The address lookup is filled while smb\_game\_data.py is imported, with that module's own
  \<open>comp_addr\<close> and the table \<open>WORLD_BASES\<close> as declared there; a later entry overwrites an
  earlier one at the same address.
\<close>

definition CORRECTED_BANDAGE_BY_ADDR :: "int \<Rightarrow> bandage_entry option" where
  "CORRECTED_BANDAGE_BY_ADDR =
     fold (\<lambda>b m. case gd_comp_addr WORLD_BASES_data (b_world b) (b_index b) (b_region b) of
                    Some ca \<Rightarrow> m(ca \<mapsto> b)
                  | None \<Rightarrow> m)
          CORRECTED_BANDAGE_DATA Map.empty"

definition BANDAGE_DATA :: "bandage_entry list" where
  "BANDAGE_DATA = CORRECTED_BANDAGE_DATA"

definition BANDAGE_BY_ADDR :: "int \<Rightarrow> bandage_entry option" where
  "BANDAGE_BY_ADDR = CORRECTED_BANDAGE_BY_ADDR"

text \<open>
  \<open>BANDAGE_GRANT_TARGETS\<close>: for each world 1..5 the light levels 0..19 that are not in
  \<open>light_has\<close>, then for each world the dark levels that are not in \<open>dark_has\<close>.
\<close>

definition grant_targets_of :: "(int \<Rightarrow> int list option) \<Rightarrow> string \<Rightarrow> (int \<times> int \<times> string) list" where
  "grant_targets_of tbl region =
     concat (map (\<lambda>w. map (\<lambda>li. (w, li, region))
                         (filter (\<lambda>li. li \<notin> set (map (\<lambda>lv. lv - 1) (get_list tbl w))) [0..19]))
                 [1..5])"

definition BANDAGE_GRANT_TARGETS :: "(int \<times> int \<times> string) list" where
  "BANDAGE_GRANT_TARGETS =
     grant_targets_of LIGHT_BANDAGE_LEVELS ''light'' @ grant_targets_of DARK_BANDAGE_LEVELS ''dark''"

section \<open>Par times and location identifiers\<close>

definition PAR_TIMES :: "real list list list" where
  "PAR_TIMES =
    [[[3.0, 5.0, 9.0, 9.0, 11.0, 7.0, 5.0, 4.5, 8.0, 7.5, 8.0, 7.0, 7.0, 8.0, 10.0, 9.0, 9.0, 4.0, 20.0, 22.0],
      [3.0, 4.5, 10.0, 12.0, 10.0, 7.0, 5.0, 6.0, 11.0, 11.0, 13.0, 12.0, 12.0, 14.0, 18.0, 17.0, 12.0, 5.0, 17.0, 25.0],
      [5.0, 5.0, 5.0, 5.0, 5.0, 5.0, 5.0, 5.0, 5.0, 5.0, 5.0, 5.0]],
     [[11.0, 10.5, 14.0, 9.5, 16.0, 15.0, 19.0, 25.0, 11.0, 12.0, 9.0, 11.0, 10.0, 16.0, 19.0, 15.0, 14.0, 16.5, 14.0, 24.0],
      [17.0, 14.0, 13.0, 14.0, 20.0, 19.0, 30.0, 33.0, 14.0, 13.0, 12.5, 22.5, 11.0, 31.0, 32.0, 16.0, 12.0, 17.0, 26.0, 36.0],
      [5.0, 5.0, 5.0, 5.0, 5.0, 5.0, 5.0, 5.0, 5.0, 5.0, 5.0, 5.0]],
     [[9.5, 8.3, 16.0, 12.0, 12.2, 4.5, 12.4, 8.3, 12.5, 10.5, 9.0, 11.6, 15.8, 14.8, 14.8, 14.8, 10.5, 17.0, 17.0, 20.0],
      [23.0, 16.0, 16.5, 20.0, 28.0, 20.0, 15.5, 17.5, 21.0, 18.0, 24.0, 11.6, 40.0, 18.0, 27.0, 24.0, 11.5, 17.0, 17.0, 25.5],
      [5.0, 5.0, 5.0, 5.0, 5.0, 5.0, 5.0, 5.0, 5.0, 5.0, 5.0, 5.0]],
     [[11.0, 23.0, 11.5, 11.5, 12.0, 8.0, 17.0, 16.0, 6.0, 15.0, 12.5, 10.8, 11.5, 17.5, 9.0, 12.0, 12.0, 24.5, 14.0, 22.0],
      [19.0, 16.5, 12.0, 17.5, 14.0, 19.0, 18.0, 19.0, 10.5, 17.0, 16.5, 18.5, 23.0, 20.0, 11.0, 11.5, 18.0, 29.0, 14.0, 31.0],
      [5.0, 5.0, 5.0, 5.0, 5.0, 5.0, 5.0, 5.0, 5.0, 5.0, 5.0, 5.0]],
     [[22.0, 13.0, 18.0, 13.5, 12.5, 11.0, 23.0, 20.0, 19.5, 15.5, 18.5, 16.0, 20.0, 30.5, 13.5, 30.0, 23.0, 17.0, 29.0, 32.0],
      [30.0, 17.0, 35.0, 27.0, 18.0, 12.0, 15.0, 26.0, 40.0, 15.0, 25.0, 26.0, 25.0, 60.0, 15.0, 32.0, 27.0, 19.0, 41.0, 48.0],
      [5.0, 5.0, 5.0, 5.0, 5.0, 5.0, 5.0, 5.0, 5.0, 5.0, 5.0, 5.0]],
     [[30.0, 44.0, 34.0, 33.0, 44.0],
      [40.0, 50.0, 70.0, 50.0, 60.0]],
     [[11.0, 13.0, 23.0, 26.0, 30.0, 7.5, 10.5, 26.0, 21.0, 32.0, 18.0, 11.6, 22.0, 40.0, 24.0, 20.0, 20.0, 21.0, 17.0, 45.0],
      [60.0, 60.0, 60.0, 60.0, 60.0, 60.0, 60.0, 60.0, 60.0, 60.0, 60.0, 60.0, 60.0, 60.0, 60.0, 60.5, 60.5, 60.0, 60.0, 60.0]]]"

definition type_map :: "string \<Rightarrow> nat option" where
  "type_map = [''light'' \<mapsto> 0, ''dark'' \<mapsto> 1, ''warp'' \<mapsto> 2]"

text \<open>Every list subscript below is guarded by the bounds checks of the source.\<close>

definition get_par_time :: "int \<Rightarrow> int \<Rightarrow> string \<Rightarrow> real option" where
  "get_par_time world level_index region =
     (let wi = world - 1 in
      if wi < 0 \<or> wi \<ge> int (length PAR_TIMES) then None
      else (case type_map region of
              None \<Rightarrow> None
            | Some ti \<Rightarrow>
                if ti \<ge> length (PAR_TIMES ! nat wi) then None
                else if level_index < 0 \<or> level_index \<ge> int (length (PAR_TIMES ! nat wi ! ti)) then None
                else Some (PAR_TIMES ! nat wi ! ti ! nat level_index)))"

definition is_a_plus :: "pyfloat \<Rightarrow> int \<Rightarrow> int \<Rightarrow> string \<Rightarrow> bool" where
  "is_a_plus time_val world level_index region =
     (case get_par_time world level_index region of
        None \<Rightarrow> False
      | Some par \<Rightarrow> if fl_le time_val (Finite 0) then False else fl_le time_val (Finite par))"

definition level_location_id :: "int \<Rightarrow> int \<Rightarrow> int" where
  "level_location_id world level_index = BASE_ID + (world - 1) * 20 + (level_index + 1)"

definition w6_level_location_id :: "int \<Rightarrow> int" where
  "w6_level_location_id level_index = BASE_ID + 401 + level_index"

definition w6_dark_level_location_id :: "int \<Rightarrow> int" where
  "w6_dark_level_location_id level_index = BASE_ID + 406 + level_index"

definition dark_level_location_id :: "int \<Rightarrow> int \<Rightarrow> int" where
  "dark_level_location_id world level_index = BASE_ID + 300 + (world - 1) * 20 + (level_index + 1)"

definition boss_location_id :: "int \<Rightarrow> int" where
  "boss_location_id world = BASE_ID + 100 + world"

definition dark_boss_location_id :: int where
  "dark_boss_location_id = BASE_ID + 107"

definition aplus_light_location_id :: "int \<Rightarrow> int \<Rightarrow> int" where
  "aplus_light_location_id world level_index = BASE_ID + 500 + (world - 1) * 20 + (level_index + 1)"

definition aplus_dark_location_id :: "int \<Rightarrow> int \<Rightarrow> int" where
  "aplus_dark_location_id world level_index = BASE_ID + 600 + (world - 1) * 20 + (level_index + 1)"

definition aplus_w6_light_location_id :: "int \<Rightarrow> int" where
  "aplus_w6_light_location_id level_index = BASE_ID + 701 + level_index"

definition aplus_w6_dark_location_id :: "int \<Rightarrow> int" where
  "aplus_w6_dark_location_id level_index = BASE_ID + 706 + level_index"

definition aplus_w7_light_location_id :: "int \<Rightarrow> int" where
  "aplus_w7_light_location_id level_index = BASE_ID + 711 + level_index"

definition aplus_w7_dark_location_id :: "int \<Rightarrow> int" where
  "aplus_w7_dark_location_id level_index = BASE_ID + 731 + level_index"

definition aplus_warp_location_id :: "int \<Rightarrow> int \<Rightarrow> int" where
  "aplus_warp_location_id world warp_slot_index = BASE_ID + 751 + (world - 1) * 12 + warp_slot_index"

definition w7_light_location_id :: "int \<Rightarrow> int" where
  "w7_light_location_id level_index = BASE_ID + 811 + level_index"

definition w7_dark_location_id :: "int \<Rightarrow> int" where
  "w7_dark_location_id level_index = BASE_ID + 831 + level_index"

definition bandage_milestone_location_id :: "int \<Rightarrow> int" where
  "bandage_milestone_location_id count = BASE_ID + 920 + (count div 10)"

definition BANDAGE_MILESTONES :: "int list" where
  "BANDAGE_MILESTONES = [10, 20, 30, 40, 50, 60, 70, 80, 90, 100]"

definition get_completion_location_id :: "int \<Rightarrow> int \<Rightarrow> string \<Rightarrow> int option" where
  "get_completion_location_id world level_index region =
     (if region = ''light'' then
        (if 1 \<le> world \<and> world \<le> 5 \<and> 0 \<le> level_index \<and> level_index < 20
           then Some (level_location_id world level_index)
         else if world = 6 \<and> 0 \<le> level_index \<and> level_index < 5
           then Some (w6_level_location_id level_index)
         else if world = 7 \<and> 0 \<le> level_index \<and> level_index < 20
           then Some (w7_light_location_id level_index)
         else None)
      else if region = ''dark'' then
        (if 1 \<le> world \<and> world \<le> 5 \<and> 0 \<le> level_index \<and> level_index < 20
           then Some (dark_level_location_id world level_index)
         else if world = 6 \<and> 0 \<le> level_index \<and> level_index < 5
           then Some (w6_dark_level_location_id level_index)
         else if world = 7 \<and> 0 \<le> level_index \<and> level_index < 20
           then Some (w7_dark_location_id level_index)
         else None)
      else None)"

definition get_aplus_location_id :: "int \<Rightarrow> int \<Rightarrow> string \<Rightarrow> int option" where
  "get_aplus_location_id world level_index region =
     (if region = ''light'' then
        (if 1 \<le> world \<and> world \<le> 5 \<and> 0 \<le> level_index \<and> level_index < 20
           then Some (aplus_light_location_id world level_index)
         else if world = 6 \<and> 0 \<le> level_index \<and> level_index < 5
           then Some (aplus_w6_light_location_id level_index)
         else if world = 7 \<and> 0 \<le> level_index \<and> level_index < 20
           then Some (aplus_w7_light_location_id level_index)
         else None)
      else if region = ''dark'' then
        (if 1 \<le> world \<and> world \<le> 5 \<and> 0 \<le> level_index \<and> level_index < 20
           then Some (aplus_dark_location_id world level_index)
         else if world = 6 \<and> 0 \<le> level_index \<and> level_index < 5
           then Some (aplus_w6_dark_location_id level_index)
         else if world = 7 \<and> 0 \<le> level_index \<and> level_index < 20
           then Some (aplus_w7_dark_location_id level_index)
         else None)
      else if region = ''warp'' then
        (if 1 \<le> world \<and> world \<le> 5 \<and> 0 \<le> level_index \<and> level_index < 12
           then Some (aplus_warp_location_id world level_index)
         else None)
      else None)"

text \<open>Python truthiness of an optional identifier: \<open>None\<close> and \<open>0\<close> are false.\<close>

definition truthy :: "int option \<Rightarrow> bool" where
  "truthy x = (case x of None \<Rightarrow> False | Some v \<Rightarrow> v \<noteq> 0)"

section \<open>The client state (class APClient)\<close>

text \<open>
  \<open>self.log(text, kind)\<close> hands a formatted line to the GUI. The model keeps the event and
  its arguments and drops the formatting.

  \<open>self.ws\<close> is \<open>None\<close> or a websocket. \<open>self.ws.send\<close> hands a message to an open socket;
  the model appends it to \<open>outbox\<close>, the sequence of messages handed over so far. On a
  socket that has closed, \<open>send\<close> raises \<open>ConnectionClosed\<close>, and no caller up to the main
  loop of \<open>game_monitor\<close> catches it.
\<close>

datatype socket = SocketOpen | SocketClosed

datatype log_event =
    LogChecked int
  | LogGoalComplete
  | LogCongratulations
  | LogAPlus int int string pyfloat real
  | LogAPlusSweep int int string pyfloat real
  | LogDebugAPlusNotWritten int int string pyfloat
  | LogDebugAPlusNoPar int int string
  | LogDebugAPlusDisabled
  | LogBossDefeated int bool
  | LogGoalNotMet int int
  | LogBandage int
  | LogDebugBandageNoMapping int int string int
  | LogBossUnlocked int
  | LogBossPreUnlocked int
  | LogTokenProgress int int int bool
  | LogTokenName int
  | LogUnlockedWorld int
  | LogGrantedBandage int
  | LogBandageMilestone int
  | LogUnlockedCharacter int
  | LogDarkAccess int int int int
  | LogWarpFound int int int string
  | LogDebugExitNoChange int int int int
  | LogDebugMidplayNoChange int int int int
  | LogBandageMidplay int
  | LogDebugWarpSlot int int int int
  | LogDebugWarpSlotUnchanged int int
  | LogWarpSubLevel int int int
  | LogAPlusWarp int int pyfloat real
  | LogCharacterUnlocked int
  | LogWarpComplete int int

datatype message =
    LocationChecks "int list"
  | StatusUpdate int

record APClient =
  ws :: "socket option"
  connected :: bool
  locations_checked :: "int set"
  items_received :: "int list"
  items_processed :: nat
  allowed_worlds :: "int set"
  bandage_count :: int
  character_bits :: int
  goal_completed :: bool
  aplus_logged :: "int set"
  boss_token_count :: int
  boss_token_counts :: "int \<Rightarrow> int option"
  boss_unlocked :: "int set"
  dark_lock_enabled :: bool
  dark_unlocks_per_world :: int
  dark_access_counts :: "int \<Rightarrow> int option"
  real_best_times :: "int \<times> int \<Rightarrow> pyfloat option"
  fake_aplus_times :: "(int \<times> int) set"
  outbox :: "message list"
  logged :: "log_event list"

definition CHARACTER_BASE_BITS :: int where
  "CHARACTER_BASE_BITS = push_bit 0 1"

text \<open>The state \<open>__init__\<close> builds, with the socket and log as given.\<close>

definition init_client :: APClient where
  "init_client =
     \<lparr>ws = None, connected = False, locations_checked = {}, items_received = [],
      items_processed = 0, allowed_worlds = {1}, bandage_count = 0,
      character_bits = CHARACTER_BASE_BITS, goal_completed = False, aplus_logged = {},
      boss_token_count = 0,
      boss_token_counts = [1 \<mapsto> 0, 2 \<mapsto> 0, 3 \<mapsto> 0, 4 \<mapsto> 0, 5 \<mapsto> 0, 6 \<mapsto> 0],
      boss_unlocked = {}, dark_lock_enabled = False, dark_unlocks_per_world = 4,
      dark_access_counts = [1 \<mapsto> 0, 2 \<mapsto> 0, 3 \<mapsto> 0, 4 \<mapsto> 0, 5 \<mapsto> 0],
      real_best_times = Map.empty, fake_aplus_times = {}, outbox = [], logged = []\<rparr>"

definition log :: "APClient \<Rightarrow> log_event \<Rightarrow> APClient" where
  "log c e = c\<lparr>logged := logged c @ [e]\<rparr>"

text \<open>
  \<open>send_message\<close> has no \<open>try\<close>: an exception of \<open>send\<close> leaves it, with the state as it
  was. The first component of the result is the exception, if any.
\<close>

definition send_message :: "APClient \<Rightarrow> message \<Rightarrow> error option \<times> APClient" where
  "send_message c msg =
     (case ws c of
        None \<Rightarrow> (None, c)
      | Some SocketOpen \<Rightarrow> (None, c\<lparr>outbox := outbox c @ [msg]\<rparr>)
      | Some SocketClosed \<Rightarrow> (Some ConnectionClosed, c))"

text \<open>
  The \<open>Connected\<close> branch of \<open>handle_message\<close>, as far as it changes the fields above:
  it sets \<open>connected\<close> and replaces \<open>locations_checked\<close> by the server's
  \<open>checked_locations\<close>.
\<close>

definition handle_Connected :: "APClient \<Rightarrow> int list \<Rightarrow> APClient" where
  "handle_Connected c checked = c\<lparr>connected := True, locations_checked := set checked\<rparr>"

text \<open>
  \<open>send_location_checks\<close> marks the new ids as checked before it sends them; when the
  send raises, the ids stay marked and the \<open>Checked\<close> lines are not logged.
\<close>

definition send_location_checks :: "APClient \<Rightarrow> int list \<Rightarrow> error option \<times> APClient" where
  "send_location_checks c locations =
     (if \<not> connected c \<or> locations = [] then (None, c)
      else
        (let new_locs = filter (\<lambda>loc. loc \<notin> locations_checked c) locations in
         if new_locs = [] then (None, c)
         else
           (let c1 = c\<lparr>locations_checked := locations_checked c \<union> set new_locs\<rparr> in
            case send_message c1 (LocationChecks new_locs) of
              (Some e, c2) \<Rightarrow> (Some e, c2)
            | (None, c2) \<Rightarrow> (None, fold (\<lambda>loc c'. log c' (LogChecked loc)) new_locs c2))))"

definition send_goal_complete :: "APClient \<Rightarrow> error option \<times> APClient" where
  "send_goal_complete c =
     (if \<not> goal_completed c then
        (let c1 = c\<lparr>goal_completed := True\<rparr> in
         case send_message c1 (StatusUpdate 30) of
           (Some e, c2) \<Rightarrow> (Some e, c2)
         | (None, c2) \<Rightarrow> (None, log (log c2 LogGoalComplete) LogCongratulations))
      else (None, c))"

section \<open>Boss tokens\<close>

text \<open>\<open>d.get(w, 0)\<close> on a dictionary of counts.\<close>

definition get_count :: "(int \<Rightarrow> int option) \<Rightarrow> int \<Rightarrow> int" where
  "get_count d w = (case d w of Some n \<Rightarrow> n | None \<Rightarrow> 0)"

text \<open>
  \<open>boss_token_costs\<close> is a dictionary that the loops iterate in insertion order; it is an
  association list of (world, needed). \<open>_update_boss_tokens\<close> subscripts
  \<open>BOSS_UNLOCK_THRESHOLDS[w]\<close> after it has added \<open>w\<close> to \<open>boss_unlocked\<close>; on a missing
  key the \<open>KeyError\<close> leaves the function with the state reached so far, which is the
  first component of the result.
\<close>

fun update_boss_tokens_loop ::
  "int \<Rightarrow> (int \<times> int) list \<Rightarrow> APClient \<Rightarrow> GameInterface \<Rightarrow> int list
     \<Rightarrow> error option \<times> APClient \<times> GameInterface \<times> int list" where
  "update_boss_tokens_loop sp [] c game newly_unlocked = (None, c, game, newly_unlocked)"
| "update_boss_tokens_loop sp ((w, needed) # rest) c game newly_unlocked =
     (if needed \<le> 0 \<or> w \<in> boss_unlocked c then
        update_boss_tokens_loop sp rest c game newly_unlocked
      else if get_count (boss_token_counts c) w \<ge> needed then
        (let c1 = c\<lparr>boss_unlocked := insert w (boss_unlocked c)\<rparr> in
         case BOSS_UNLOCK_THRESHOLDS w of
           None \<Rightarrow> (Some KeyError, c1, game, newly_unlocked)
         | Some threshold \<Rightarrow>
             update_boss_tokens_loop sp rest c1 (write_boss_counter game sp w threshold)
               (newly_unlocked @ [w]))
      else update_boss_tokens_loop sp rest c game newly_unlocked)"

definition update_boss_tokens ::
  "APClient \<Rightarrow> GameInterface \<Rightarrow> int \<Rightarrow> (int \<times> int) list
     \<Rightarrow> error option \<times> APClient \<times> GameInterface \<times> int list" where
  "update_boss_tokens c game sp boss_token_costs =
     update_boss_tokens_loop sp boss_token_costs c game []"

text \<open>
  \<open>_enforce_boss_counters\<close>. The first loop iterates the set \<open>boss_unlocked\<close>; a Python
  set has no specified order, the model takes the ascending one. Each iteration touches at
  most the counter of its own world.
\<close>

definition reraise_unlocked :: "int \<Rightarrow> int \<Rightarrow> GameInterface \<Rightarrow> GameInterface" where
  "reraise_unlocked sp w game =
     (case BOSS_UNLOCK_THRESHOLDS w of
        None \<Rightarrow> game
      | Some threshold \<Rightarrow>
          (let current = read_boss_counter game sp w in
           if 0 \<le> current \<and> current < threshold then write_boss_counter game sp w threshold
           else game))"

definition suppress_locked :: "APClient \<Rightarrow> int \<Rightarrow> int \<Rightarrow> GameInterface \<Rightarrow> GameInterface" where
  "suppress_locked c sp w game =
     (if w \<notin> boss_unlocked c then
        (let current = read_boss_counter game sp w in
         if current > 0 then write_boss_counter game sp w 0 else game)
      else game)"

definition enforce_boss_counters ::
  "APClient \<Rightarrow> GameInterface \<Rightarrow> int \<Rightarrow> (int \<times> int) list \<Rightarrow> GameInterface" where
  "enforce_boss_counters c game sp boss_token_costs =
     (let game1 = fold (reraise_unlocked sp) (sorted_list_of_set (boss_unlocked c)) game in
      if boss_token_costs \<noteq> [] then fold (suppress_locked c sp) (map fst boss_token_costs) game1
      else game1)"

section \<open>Dark locks\<close>

text \<open>
  A \<open>for\<close> loop whose body may raise: the loop ends at the first exception, with the
  state the body had reached.
\<close>

fun run_loop :: "('a \<Rightarrow> 's \<Rightarrow> error option \<times> 's) \<Rightarrow> 'a list \<Rightarrow> 's \<Rightarrow> error option \<times> 's" where
  "run_loop body [] s = (None, s)"
| "run_loop body (x # xs) s =
     (case body x s of
        (Some e, s') \<Rightarrow> (Some e, s')
      | (None, s') \<Rightarrow> run_loop body xs s')"


text \<open>
  Times are Python floats and par times are finite: \<open>real <= par\<close> is \<open>fl_le real (Finite par)\<close>,
  \<open>current > par\<close> is \<open>fl_less (Finite par) current\<close>.
\<close>

text \<open>Both floor divisions raise \<open>ZeroDivisionError\<close> on a zero divisor.\<close>

definition dark_level_unlocked :: "APClient \<Rightarrow> int \<Rightarrow> int \<Rightarrow> error + bool" where
  "dark_level_unlocked c world level_index =
     (if \<not> dark_lock_enabled c then Inr True
      else if world < 1 \<or> world > 5 then Inr True
      else if dark_unlocks_per_world c = 0 then Inl ZeroDivisionError
      else
        (let levels_per_item = 20 div dark_unlocks_per_world c in
         if levels_per_item = 0 then Inl ZeroDivisionError
         else
           (let needed = (level_index div levels_per_item) + 1 in
            Inr (get_count (dark_access_counts c) world \<ge> needed))))"



definition grant_dark_access_body ::
  "int \<Rightarrow> int \<Rightarrow> int \<Rightarrow> APClient \<times> GameInterface \<Rightarrow> error option \<times> APClient \<times> GameInterface" where
  "grant_dark_access_body sp world li s =
     (case s of (c, game) \<Rightarrow>
        (case dark_level_unlocked c world li of
           Inl e \<Rightarrow> (Some e, c, game)
         | Inr False \<Rightarrow> (None, c, game)
         | Inr True \<Rightarrow>
             (case get_par_time world li ''light'' of
                None \<Rightarrow> (None, c, game)
              | Some par \<Rightarrow>
                  (case real_best_times c (world, li) of
                     Some real_t \<Rightarrow>
                       if fl_less (Finite 0) real_t \<and> fl_le real_t (Finite par) then
                         (None, c\<lparr>fake_aplus_times := fake_aplus_times c - {(world, li)}\<rparr>,
                          write_time game sp world li ''light'' real_t)
                       else
                         (let comp = read_comp game sp world li ''light'' in
                          if comp \<ge> 0 \<and> comp AND FLAG_COMPLETE \<noteq> 0 then
                            (let current_t = read_time game sp world li ''light'' in
                             if fl_less (Finite par) current_t then
                               (None, c\<lparr>fake_aplus_times := insert (world, li) (fake_aplus_times c)\<rparr>,
                                write_time game sp world li ''light'' (Finite (par - 0.001)))
                             else (None, c, game))
                          else (None, c, game))
                   | None \<Rightarrow>
                       (let comp = read_comp game sp world li ''light'' in
                        if comp \<ge> 0 \<and> comp AND FLAG_COMPLETE \<noteq> 0 then
                          (let current_t = read_time game sp world li ''light'' in
                           if fl_less (Finite par) current_t then
                             (None, c\<lparr>fake_aplus_times := insert (world, li) (fake_aplus_times c)\<rparr>,
                              write_time game sp world li ''light'' (Finite (par - 0.001)))
                           else (None, c, game))
                        else (None, c, game))))))"

definition grant_dark_access ::
  "APClient \<Rightarrow> GameInterface \<Rightarrow> int \<Rightarrow> int \<Rightarrow> error option \<times> APClient \<times> GameInterface" where
  "grant_dark_access c game sp world =
     run_loop (grant_dark_access_body sp world) [0..19] (c, game)"

section \<open>Detection helpers\<close>

text \<open>
  The time the A+ test uses: the time read from the save, or the remembered real best time
  when dark locks are on, the level is a light level of worlds 1..5, the time read is above
  par and a remembered time of at most par exists. A time that is NaN passes both
  \<open>time_val <= 0\<close> and \<open>time_val > par\<close> as false.
\<close>

definition effective_time :: "APClient \<Rightarrow> int \<Rightarrow> int \<Rightarrow> string \<Rightarrow> pyfloat \<Rightarrow> real \<Rightarrow> pyfloat" where
  "effective_time c world level_index region time_val par =
     (if dark_lock_enabled c \<and> region = ''light'' \<and> 1 \<le> world \<and> world \<le> 5
         \<and> fl_less (Finite par) time_val then
        (case real_best_times c (world, level_index) of
           Some real_t \<Rightarrow>
             if fl_less (Finite 0) real_t \<and> fl_le real_t (Finite par) then real_t else time_val
         | None \<Rightarrow> time_val)
      else time_val)"

definition check_aplus ::
  "APClient \<Rightarrow> GameInterface \<Rightarrow> int \<Rightarrow> int \<Rightarrow> int \<Rightarrow> string \<Rightarrow> int list \<Rightarrow> bool
     \<Rightarrow> APClient \<times> int list" where
  "check_aplus c game sp world level_index region checks aplus_enabled =
     (let comp = read_comp game sp world level_index region in
      if comp < 0 \<or> comp AND FLAG_COMPLETE = 0 then (c, checks)
      else
        (let time_val = read_time game sp world level_index region;
             par = get_par_time world level_index region in
         if fl_le time_val (Finite 0) then
           (log c (LogDebugAPlusNotWritten world level_index region time_val), checks)
         else
           (case par of
              None \<Rightarrow> (log c (LogDebugAPlusNoPar world level_index region), checks)
            | Some pr \<Rightarrow>
                (let time_val' = effective_time c world level_index region time_val pr in
                 if (world, level_index) \<in> fake_aplus_times c \<and> region = ''light'' then (c, checks)
                 else if fl_less (Finite pr) time_val' then (c, checks)
                 else
                   (case get_aplus_location_id world level_index region of
                      None \<Rightarrow> (c, checks)
                    | Some aplus_id \<Rightarrow>
                        if aplus_id \<noteq> 0 \<and> aplus_id \<notin> locations_checked c
                           \<and> aplus_id \<notin> aplus_logged c then
                          (let c1 = c\<lparr>aplus_logged := insert aplus_id (aplus_logged c)\<rparr>;
                               c2 = log c1 (LogAPlus world level_index region time_val' pr) in
                           if aplus_enabled then (c2, checks @ [aplus_id])
                           else (log c2 LogDebugAPlusDisabled, checks))
                        else (c, checks))))))"

text \<open>One iteration of the inner loop of \<open>_aplus_sweep\<close>, for level \<open>li\<close> of \<open>region\<close>.\<close>

definition aplus_sweep_level ::
  "GameInterface \<Rightarrow> int \<Rightarrow> int \<Rightarrow> bool \<Rightarrow> string \<Rightarrow> int \<Rightarrow> APClient \<times> int list \<Rightarrow> APClient \<times> int list" where
  "aplus_sweep_level game sp world aplus_enabled region li s =
     (case s of (c, checks) \<Rightarrow>
        (let comp = read_comp game sp world li region in
         if comp < 0 \<or> comp AND FLAG_COMPLETE = 0 then (c, checks)
         else
           (let checks1 =
                  (case get_completion_location_id world li region of
                     None \<Rightarrow> checks
                   | Some loc_id \<Rightarrow>
                       if loc_id \<noteq> 0 \<and> loc_id \<notin> locations_checked c then checks @ [loc_id]
                       else checks)
            in
            if aplus_enabled then
              (let time_val = read_time game sp world li region in
               if fl_le time_val (Finite 0) then (c, checks1)
               else
                 (case get_par_time world li region of
                    None \<Rightarrow> (c, checks1)
                  | Some par \<Rightarrow>
                      (let time_val' = effective_time c world li region time_val par in
                       if (world, li) \<in> fake_aplus_times c \<and> region = ''light'' then (c, checks1)
                       else if fl_less (Finite par) time_val' then (c, checks1)
                       else
                         (case get_aplus_location_id world li region of
                            None \<Rightarrow> (c, checks1)
                          | Some aplus_id \<Rightarrow>
                              if aplus_id \<noteq> 0 \<and> aplus_id \<notin> locations_checked c
                                 \<and> aplus_id \<notin> aplus_logged c then
                                (log (c\<lparr>aplus_logged := insert aplus_id (aplus_logged c)\<rparr>)
                                   (LogAPlusSweep world li region time_val' par),
                                 checks1 @ [aplus_id])
                              else (c, checks1)))))
            else (c, checks1))))"

text \<open>Whether the sweep skips a region (the \<open>continue\<close> statements at the head of its outer loop).\<close>

definition sweep_region_skipped :: "int \<Rightarrow> bool \<Rightarrow> bool \<Rightarrow> string \<Rightarrow> bool" where
  "sweep_region_skipped world dark_world_enabled w7_enabled region =
     ((region = ''dark'' \<and>
        ((world \<le> 5 \<and> \<not> dark_world_enabled) \<or> (world = 6 \<and> \<not> dark_world_enabled)
          \<or> (world = 7 \<and> \<not> w7_enabled)))
      \<or> (region = ''light'' \<and> world = 7 \<and> \<not> w7_enabled))"

definition aplus_sweep_region ::
  "GameInterface \<Rightarrow> int \<Rightarrow> int \<Rightarrow> bool \<Rightarrow> bool \<Rightarrow> bool \<Rightarrow> string \<Rightarrow> APClient \<times> int list
     \<Rightarrow> APClient \<times> int list" where
  "aplus_sweep_region game sp world aplus_enabled dark_world_enabled w7_enabled region s =
     (if sweep_region_skipped world dark_world_enabled w7_enabled region then s
      else
        (let num_lv = (case NUM_LEVELS world of Some n \<Rightarrow> n | None \<Rightarrow> 20) in
         fold (aplus_sweep_level game sp world aplus_enabled region) [0..num_lv - 1] s))"

definition aplus_sweep ::
  "APClient \<Rightarrow> GameInterface \<Rightarrow> int \<Rightarrow> int \<Rightarrow> bool \<Rightarrow> bool \<Rightarrow> bool \<Rightarrow> APClient \<times> int list" where
  "aplus_sweep c game sp world aplus_enabled dark_world_enabled w7_enabled =
     fold (aplus_sweep_region game sp world aplus_enabled dark_world_enabled w7_enabled)
       [''light'', ''dark''] (c, [])"

section \<open>Received items\<close>

definition ITEM_BANDAGE :: int where
  "ITEM_BANDAGE = BASE_ID + 5"

definition WORLD_ACCESS_ITEM_IDS :: "int \<Rightarrow> int option" where
  "WORLD_ACCESS_ITEM_IDS =
     [BASE_ID + 1 \<mapsto> 2, BASE_ID + 2 \<mapsto> 3, BASE_ID + 3 \<mapsto> 4,
      BASE_ID + 4 \<mapsto> 5, BASE_ID + 7 \<mapsto> 6, BASE_ID + 8 \<mapsto> 7]"

text \<open>\<open>CHARACTER_ITEMS\<close> maps an item to (bit, name); the model keeps the bit.\<close>

definition CHARACTER_ITEMS :: "int \<Rightarrow> int option" where
  "CHARACTER_ITEMS =
     [BASE_ID + 10 \<mapsto> 2, BASE_ID + 11 \<mapsto> 3, BASE_ID + 31 \<mapsto> 5, BASE_ID + 32 \<mapsto> 6,
      BASE_ID + 12 \<mapsto> 7, BASE_ID + 13 \<mapsto> 10, BASE_ID + 14 \<mapsto> 11, BASE_ID + 15 \<mapsto> 12,
      BASE_ID + 16 \<mapsto> 13, BASE_ID + 17 \<mapsto> 14, BASE_ID + 18 \<mapsto> 16, BASE_ID + 19 \<mapsto> 18,
      BASE_ID + 20 \<mapsto> 19, BASE_ID + 21 \<mapsto> 20, BASE_ID + 22 \<mapsto> 21, BASE_ID + 23 \<mapsto> 22,
      BASE_ID + 24 \<mapsto> 23, BASE_ID + 25 \<mapsto> 24, BASE_ID + 26 \<mapsto> 25, BASE_ID + 27 \<mapsto> 26,
      BASE_ID + 28 \<mapsto> 27, BASE_ID + 29 \<mapsto> 28, BASE_ID + 30 \<mapsto> 29]"

definition BOSS_TOKEN_IDS :: "int \<Rightarrow> int option" where
  "BOSS_TOKEN_IDS =
     [BASE_ID + 33 \<mapsto> 1, BASE_ID + 34 \<mapsto> 2, BASE_ID + 35 \<mapsto> 3,
      BASE_ID + 36 \<mapsto> 4, BASE_ID + 37 \<mapsto> 5, BASE_ID + 38 \<mapsto> 6]"

definition DARK_ACCESS_IDS :: "int \<Rightarrow> int option" where
  "DARK_ACCESS_IDS =
     [BASE_ID + 100 \<mapsto> 1, BASE_ID + 101 \<mapsto> 2, BASE_ID + 102 \<mapsto> 3,
      BASE_ID + 103 \<mapsto> 4, BASE_ID + 104 \<mapsto> 5]"

text \<open>
  \<open>get_new_items\<close>: the items received and not yet processed; it marks all of them
  processed. An item is represented by its identifier.
\<close>

definition get_new_items :: "APClient \<Rightarrow> int list \<times> APClient" where
  "get_new_items c =
     (drop (items_processed c) (items_received c),
      c\<lparr>items_processed := length (items_received c)\<rparr>)"

text \<open>
  The body of the item loop of the initial sync (\<open>game_monitor\<close>, "Wait for initial items
  sync"): it only updates the progression fields.
\<close>

definition sync_item :: "int \<Rightarrow> APClient \<Rightarrow> APClient" where
  "sync_item iid c =
     (case WORLD_ACCESS_ITEM_IDS iid of
        Some w \<Rightarrow> c\<lparr>allowed_worlds := insert w (allowed_worlds c)\<rparr>
      | None \<Rightarrow>
          if iid = ITEM_BANDAGE then c\<lparr>bandage_count := bandage_count c + 1\<rparr>
          else
            (case CHARACTER_ITEMS iid of
               Some bit_no \<Rightarrow> c\<lparr>character_bits := character_bits c OR push_bit (nat bit_no) 1\<rparr>
             | None \<Rightarrow>
                 (case BOSS_TOKEN_IDS iid of
                    Some w \<Rightarrow>
                      c\<lparr>boss_token_counts :=
                           (boss_token_counts c)(w \<mapsto> get_count (boss_token_counts c) w + 1),
                        boss_token_count := boss_token_count c + 1\<rparr>
                  | None \<Rightarrow>
                      (case DARK_ACCESS_IDS iid of
                         Some w \<Rightarrow>
                           c\<lparr>dark_access_counts :=
                                (dark_access_counts c)(w \<mapsto> get_count (dark_access_counts c) w + 1)\<rparr>
                       | None \<Rightarrow> c))))"

definition initial_item_sync :: "APClient \<Rightarrow> APClient" where
  "initial_item_sync c = (case get_new_items c of (new_items, c1) \<Rightarrow> fold sync_item new_items c1)"

text \<open>
  Python subscripting of a list: a negative index counts from the end, an index out of
  range raises \<open>IndexError\<close>.
\<close>

definition py_index :: "'a list \<Rightarrow> int \<Rightarrow> error + 'a" where
  "py_index xs i =
     (if 0 \<le> i \<and> i < int (length xs) then Inr (xs ! nat i)
      else if - int (length xs) \<le> i \<and> i < 0 then Inr (xs ! nat (int (length xs) + i))
      else Inl IndexError)"

text \<open>
  The options \<open>game_monitor\<close> reads from \<open>slot_data\<close> once, and its local variables that
  the modelled blocks use. \<open>boss_token_costs\<close> is built for the worlds 1..6 in this order.
  The local \<open>dark_lock_enabled\<close> is the value that the monitor also stores in
  \<open>self.dark_lock_enabled\<close>.
\<close>

record slot_options =
  goal :: int
  bandages_req :: int
  dark_world_enabled :: bool
  aplus_enabled :: bool
  w7_enabled :: bool
  achievements_enabled :: bool
  boss_tokens_enabled :: bool
  boss_token_costs :: "(int \<times> int) list"
  opt_dark_lock_enabled :: bool
  char_warp_enabled :: bool
  warp_complete_enabled :: bool

definition make_boss_token_costs :: "(int \<Rightarrow> int) \<Rightarrow> (int \<times> int) list" where
  "make_boss_token_costs boss_tokens_w = map (\<lambda>w. (w, boss_tokens_w w)) [1..6]"

record monitor =
  milestones_sent :: "int set"
  pending_boss_world :: int
  pending_boss_dark :: bool
  bosses_beaten :: "int set"
  characters_unlocked :: "int set"
  warps_completed :: "(int \<times> int) set"

text \<open>
  \<open>sum(1 << (w - 1) for w in self.allowed_worlds)\<close>. The set starts as \<open>{1}\<close> and only
  receives the worlds 2..7 of \<open>WORLD_ACCESS_ITEM_IDS\<close>, so the shift count is not negative.
\<close>

definition world_bitmask :: "APClient \<Rightarrow> int" where
  "world_bitmask c = (\<Sum>w \<in> allowed_worlds c. push_bit (nat (w - 1)) 1)"

definition milestone_step :: "int \<Rightarrow> APClient \<times> monitor \<times> int list \<Rightarrow> APClient \<times> monitor \<times> int list" where
  "milestone_step milestone s =
     (case s of (c, m, ach_checks) \<Rightarrow>
        if milestone \<notin> milestones_sent m \<and> bandage_count c \<ge> milestone then
          (let m1 = m\<lparr>milestones_sent := insert milestone (milestones_sent m)\<rparr>;
               mid = bandage_milestone_location_id milestone in
           if mid \<notin> locations_checked c
             then (log c (LogBandageMilestone milestone), m1, ach_checks @ [mid])
           else (c, m1, ach_checks))
        else (c, m, ach_checks))"




text \<open>
  The body of the item loop of the poll cycle (\<open>game_monitor\<close>, "Process new items"). An
  exception leaves the loop with the state reached so far.
\<close>

definition process_item ::
  "slot_options \<Rightarrow> int \<Rightarrow> APClient \<times> GameInterface \<times> monitor
     \<Rightarrow> error option \<times> APClient \<times> GameInterface \<times> monitor" where
  "process_item opts iid s =
     (case s of (c, game, m) \<Rightarrow>
        (case WORLD_ACCESS_ITEM_IDS iid of
           Some w \<Rightarrow>
             if w \<notin> allowed_worlds c then
               (let c1 = c\<lparr>allowed_worlds := insert w (allowed_worlds c)\<rparr>;
                    bitmask = world_bitmask c1;
                    sp = get_sp game;
                    game1 = (if sp \<noteq> 0 then set_world_unlock game sp bitmask else game)
                in (None, log c1 (LogUnlockedWorld w), game1, m))
             else (None, c, game, m)
         | None \<Rightarrow>
             if iid = ITEM_BANDAGE then
               (let c1 = c\<lparr>bandage_count := bandage_count c + 1\<rparr>;
                    sp = get_sp game in
                case (if sp \<noteq> 0 \<and> bandage_count c1 \<le> int (length BANDAGE_GRANT_TARGETS) then
                        (case py_index BANDAGE_GRANT_TARGETS (bandage_count c1 - 1) of
                           Inl e \<Rightarrow> Inl e
                         | Inr (gw, gi, gr) \<Rightarrow>
                             (let val = read_comp game sp gw gi gr in
                              Inr (if val \<ge> 0 then write_comp game sp gw gi gr (val OR FLAG_BANDAGE)
                                   else game)))
                      else Inr game) of
                  Inl e \<Rightarrow> (Some e, c1, game, m)
                | Inr game1 \<Rightarrow>
                    (let c2 = log c1 (LogGrantedBandage (bandage_count c1)) in
                     if achievements_enabled opts then
                       (case fold milestone_step BANDAGE_MILESTONES (c2, m, []) of
                          (c3, m3, ach_checks) \<Rightarrow>
                            (case (if ach_checks \<noteq> [] then send_location_checks c3 ach_checks
                                   else (None, c3)) of
                               (err, c4) \<Rightarrow> (err, c4, game1, m3)))
                     else (None, c2, game1, m)))
             else
               (case CHARACTER_ITEMS iid of
                  Some bit_no \<Rightarrow>
                    (let c1 = c\<lparr>character_bits := character_bits c OR push_bit (nat bit_no) 1\<rparr>;
                         sp = get_sp game;
                         game1 = (if sp \<noteq> 0 then set_char_bitmask game sp (character_bits c1) else game)
                     in (None, log c1 (LogUnlockedCharacter iid), game1, m))
                | None \<Rightarrow>
                    (case BOSS_TOKEN_IDS iid of
                       Some token_world \<Rightarrow>
                         (let c1 = c\<lparr>boss_token_counts :=
                                        (boss_token_counts c)
                                          (token_world \<mapsto> get_count (boss_token_counts c) token_world + 1),
                                      boss_token_count := boss_token_count c + 1\<rparr>
                          in
                          if boss_tokens_enabled opts then
                            (let sp = get_sp game in
                             case (if sp \<noteq> 0 then
                                     (case update_boss_tokens c1 game sp (boss_token_costs opts) of
                                        (err, c2, game2, newly) \<Rightarrow>
                                          (err, fold (\<lambda>w c'. log c' (LogBossUnlocked w)) newly c2, game2))
                                   else (None, c1, game)) of
                               (Some e, c3, game3) \<Rightarrow> (Some e, c3, game3, m)
                             | (None, c3, game3) \<Rightarrow>
                                 (let needed = (case map_of (boss_token_costs opts) token_world of
                                                  Some n \<Rightarrow> n | None \<Rightarrow> 0);
                                      have_n = get_count (boss_token_counts c3) token_world
                                  in (None,
                                      log c3 (LogTokenProgress token_world have_n needed
                                                (token_world \<in> boss_unlocked c3)),
                                      game3, m)))
                          else (None, log c1 (LogTokenName token_world), game, m))
                     | None \<Rightarrow>
                         (case DARK_ACCESS_IDS iid of
                            Some dw \<Rightarrow>
                              (let c1 = c\<lparr>dark_access_counts :=
                                             (dark_access_counts c)
                                               (dw \<mapsto> get_count (dark_access_counts c) dw + 1)\<rparr>;
                                   sp = get_sp game
                               in
                               case (if sp \<noteq> 0 \<and> opt_dark_lock_enabled opts
                                       then grant_dark_access c1 game sp dw
                                     else (None, c1, game)) of
                                 (Some e, c2, game2) \<Rightarrow> (Some e, c2, game2, m)
                               | (None, c2, game2) \<Rightarrow>
                                   if dark_unlocks_per_world c2 = 0 then (Some ZeroDivisionError, c2, game2, m)
                                   else
                                     (let count = get_count (dark_access_counts c2) dw;
                                          levels_per = 20 div dark_unlocks_per_world c2;
                                          unlocked = min (count * levels_per) 20
                                      in (None,
                                          log c2 (LogDarkAccess dw count (dark_unlocks_per_world c2) unlocked),
                                          game2, m)))
                          | None \<Rightarrow> (None, c, game, m))))))"

definition process_new_items ::
  "slot_options \<Rightarrow> APClient \<times> GameInterface \<times> monitor
     \<Rightarrow> error option \<times> APClient \<times> GameInterface \<times> monitor" where
  "process_new_items opts s =
     (case s of (c, game, m) \<Rightarrow>
        (case get_new_items c of
           (new_items, c1) \<Rightarrow> run_loop (process_item opts) new_items (c1, game, m)))"

section \<open>Boss defeat and the goal\<close>

text \<open>
  The body of \<open>if boss_confirmed:\<close> in the pending boss check of \<open>game_monitor\<close>, up to the
  reset of the pending record. The statements that follow it in the source (the
  achievement check and the re-enforcement of counters and dark locks) neither read nor
  assign \<open>goal_completed\<close> and send no \<open>StatusUpdate\<close>; they are not part of this
  definition.
\<close>

definition goal_checks :: "slot_options \<Rightarrow> APClient \<Rightarrow> monitor \<Rightarrow> error option \<times> APClient" where
  "goal_checks opts c m =
     (if pending_boss_dark m then
        (if goal opts = 3 \<and> bandage_count c \<ge> bandages_req opts then send_goal_complete c
         else if goal opts = 3 then (None, log c (LogGoalNotMet (bandages_req opts) (bandage_count c)))
         else (None, c))
      else
        (if goal opts = 0 \<and> pending_boss_world m = 5 then
           (if bandage_count c \<ge> bandages_req opts then send_goal_complete c
            else (None, log c (LogGoalNotMet (bandages_req opts) (bandage_count c))))
         else if goal opts = 1 \<and> card (bosses_beaten m) \<ge> 5 then
           (if bandage_count c \<ge> bandages_req opts then send_goal_complete c
            else (None, log c (LogGoalNotMet (bandages_req opts) (bandage_count c))))
         else if goal opts = 2 \<and> pending_boss_world m = 6 then
           (if bandage_count c \<ge> bandages_req opts then send_goal_complete c
            else (None, log c (LogGoalNotMet (bandages_req opts) (bandage_count c))))
         else (None, c)))"

text \<open>
  An exception of a send leaves the block where it is raised: the statements after it (the
  update of \<open>bosses_beaten\<close>, the goal checks, the reset of the pending record) do not run.
\<close>

definition boss_confirmed_block ::
  "slot_options \<Rightarrow> APClient \<times> monitor \<Rightarrow> error option \<times> APClient \<times> monitor" where
  "boss_confirmed_block opts s =
     (case s of (c, m) \<Rightarrow>
        (let dark_boss = (pending_boss_world m = 6 \<and> pending_boss_dark m \<and> dark_world_enabled opts);
             loc_id = (if dark_boss then dark_boss_location_id
                       else boss_location_id (pending_boss_world m))
         in
         if loc_id \<notin> locations_checked c then
           (case send_location_checks c [loc_id] of
              (Some e, c1) \<Rightarrow> (Some e, c1, m)
            | (None, c1) \<Rightarrow>
                (let m1 = (if \<not> pending_boss_dark m
                             then m\<lparr>bosses_beaten := insert (pending_boss_world m) (bosses_beaten m)\<rparr>
                           else m);
                     c2 = log c1 (LogBossDefeated (pending_boss_world m) dark_boss)
                 in
                 case goal_checks opts c2 m1 of
                   (Some e, c3) \<Rightarrow> (Some e, c3, m1)
                 | (None, c3) \<Rightarrow> (None, c3, m1\<lparr>pending_boss_world := 0, pending_boss_dark := False\<rparr>)))
         else (None, c, m\<lparr>pending_boss_world := 0, pending_boss_dark := False\<rparr>)))"

text \<open>
  The pending boss check of one poll cycle: \<open>time_since\<close> is \<open>time.time() - pending_boss_time\<close>.
\<close>

definition pending_boss_check ::
  "slot_options \<Rightarrow> int \<Rightarrow> int \<Rightarrow> real \<Rightarrow> APClient \<times> monitor
     \<Rightarrow> error option \<times> APClient \<times> monitor" where
  "pending_boss_check opts playing ui_state time_since s =
     (case s of (c, m) \<Rightarrow>
        if pending_boss_world m > 0 then
          (if time_since > 1.0 then
             (let boss_confirmed =
                    (if pending_boss_world m = 6 then playing = 0
                     else playing = 0 \<and> ui_state = 3)
              in
              if boss_confirmed then boss_confirmed_block opts (c, m)
              else if time_since > 10.0
                then (None, c, m\<lparr>pending_boss_world := 0, pending_boss_dark := False\<rparr>)
              else (None, c, m))
           else (None, c, m))
        else (None, c, m))"

section \<open>Snapshot diffs: level change during play and level exit\<close>

definition WARP_HOST_TO_ZONE :: "int \<times> int \<times> string \<Rightarrow> int option" where
  "WARP_HOST_TO_ZONE =
     [(1, 5, ''light'') \<mapsto> 0, (1, 12, ''light'') \<mapsto> 1, (1, 19, ''light'') \<mapsto> 2, (1, 13, ''dark'') \<mapsto> 3,
      (2, 15, ''light'') \<mapsto> 0, (2, 8, ''light'') \<mapsto> 1, (2, 12, ''light'') \<mapsto> 2, (2, 5, ''dark'') \<mapsto> 3,
      (3, 7, ''light'') \<mapsto> 0, (3, 16, ''light'') \<mapsto> 1, (3, 5, ''light'') \<mapsto> 2, (3, 8, ''dark'') \<mapsto> 3,
      (4, 8, ''light'') \<mapsto> 0, (4, 18, ''light'') \<mapsto> 1, (4, 14, ''light'') \<mapsto> 2, (4, 7, ''dark'') \<mapsto> 3,
      (5, 1, ''light'') \<mapsto> 0, (5, 7, ''light'') \<mapsto> 1, (5, 12, ''light'') \<mapsto> 2, (5, 20, ''dark'') \<mapsto> 3]"

text \<open>\<open>_check_gotwarp\<close> only logs.\<close>

definition check_gotwarp :: "APClient \<Rightarrow> int \<Rightarrow> int \<Rightarrow> int \<Rightarrow> int \<Rightarrow> string \<Rightarrow> APClient" where
  "check_gotwarp c ev cv world level_index region =
     (if ev < 0 \<or> cv < 0 then c
      else if ev AND FLAG_WARP = 0 \<and> cv AND FLAG_WARP \<noteq> 0 then
        (let lv_1idx = level_index + 1 in
         case WARP_HOST_TO_ZONE (world, lv_1idx, region) of
           Some zone_idx \<Rightarrow> log c (LogWarpFound world zone_idx lv_1idx region)
         | None \<Rightarrow> c)
      else c)"

definition TYPE_LIGHT :: int where
  "TYPE_LIGHT = 0"

definition TYPE_DARK :: int where
  "TYPE_DARK = 1"

definition TYPE_WARP_MIN :: int where
  "TYPE_WARP_MIN = 2"

definition TYPE_WARP_MAX :: int where
  "TYPE_WARP_MAX = 5"

definition type_to_region :: "int \<Rightarrow> string option" where
  "type_to_region lvl_type =
     (if lvl_type = TYPE_LIGHT then Some ''light''
      else if lvl_type = TYPE_DARK then Some ''dark''
      else if TYPE_WARP_MIN \<le> lvl_type \<and> lvl_type \<le> TYPE_WARP_MAX then Some ''warp''
      else None)"

text \<open>
  \<open>BANDAGE_BY_ADDR.get(ca)\<close> where \<open>ca\<close> is the result of \<open>comp_addr\<close>: the keys of the
  table are integers, so the lookup of \<open>None\<close> gives \<open>None\<close>.
\<close>

definition bandage_lookup :: "int option \<Rightarrow> bandage_entry option" where
  "bandage_lookup ca = (case ca of None \<Rightarrow> None | Some a \<Rightarrow> BANDAGE_BY_ADDR a)"

subsection \<open>Light and dark levels\<close>

text \<open>
  The completion test of the level-exit diff: the identifier is queued when the complete
  bit is newly set, the region is reportable under the options and the identifier is not
  in \<open>locations_checked\<close>.
\<close>

definition exit_completion_check ::
  "APClient \<Rightarrow> int \<Rightarrow> int \<Rightarrow> string \<Rightarrow> int \<Rightarrow> int \<Rightarrow> bool \<Rightarrow> bool \<Rightarrow> int list \<Rightarrow> int list" where
  "exit_completion_check c last_world exit_level exit_region ev cv dark_world_en w7_en checks =
     (if ev AND FLAG_COMPLETE = 0 \<and> cv AND FLAG_COMPLETE \<noteq> 0 then
        (case get_completion_location_id last_world exit_level exit_region of
           None \<Rightarrow> checks
         | Some loc_id \<Rightarrow>
             if loc_id \<noteq> 0 then
               (let should_check =
                      (if exit_region = ''light'' then
                         (1 \<le> last_world \<and> last_world \<le> 6) \<or> (last_world = 7 \<and> w7_en)
                       else if exit_region = ''dark'' then
                         (if 1 \<le> last_world \<and> last_world \<le> 5 then dark_world_en
                          else if last_world = 6 then dark_world_en
                          else if last_world = 7 then w7_en
                          else False)
                       else False)
                in if should_check \<and> loc_id \<notin> locations_checked c then checks @ [loc_id] else checks)
             else checks)
      else checks)"

text \<open>The same test in the diff at a level change during play; the dark case differs.\<close>

definition midplay_completion_check ::
  "APClient \<Rightarrow> int \<Rightarrow> int \<Rightarrow> string \<Rightarrow> int \<Rightarrow> int \<Rightarrow> bool \<Rightarrow> bool \<Rightarrow> int list \<Rightarrow> int list" where
  "midplay_completion_check c last_world last_level old_region ev cv dark_world_en w7_en checks =
     (if ev AND FLAG_COMPLETE = 0 \<and> cv AND FLAG_COMPLETE \<noteq> 0 then
        (case get_completion_location_id last_world last_level old_region of
           None \<Rightarrow> checks
         | Some loc_id \<Rightarrow>
             if loc_id \<noteq> 0 then
               (let should_check =
                      (if old_region = ''light'' then
                         (1 \<le> last_world \<and> last_world \<le> 6) \<or> (last_world = 7 \<and> w7_en)
                       else if old_region = ''dark'' then
                         dark_world_en \<or> (last_world = 7 \<and> w7_en)
                       else False)
                in if should_check \<and> loc_id \<notin> locations_checked c then checks @ [loc_id] else checks)
             else checks)
      else checks)"

text \<open>
  The bandage test of the level-exit diff. The identifier of the bandage is queued without
  a look at \<open>locations_checked\<close>. The debug line of the branch without a mapping formats
  the address with \<open>:04X\<close>, which raises \<open>TypeError\<close> when \<open>comp_addr\<close> gave \<open>None\<close>.
\<close>

definition exit_bandage_check ::
  "APClient \<Rightarrow> GameInterface \<Rightarrow> int \<Rightarrow> int \<Rightarrow> int \<Rightarrow> string \<Rightarrow> int \<Rightarrow> int \<Rightarrow> int list
     \<Rightarrow> error option \<times> APClient \<times> GameInterface \<times> int list" where
  "exit_bandage_check c game sp2 last_world exit_level exit_region ev cv checks =
     (if ev AND FLAG_BANDAGE = 0 \<and> cv AND FLAG_BANDAGE \<noteq> 0 then
        (let ca = comp_addr last_world exit_level exit_region in
         case bandage_lookup ca of
           Some be \<Rightarrow>
             (None, log c (LogBandage (ap_id be)),
              write_comp game sp2 last_world exit_level exit_region (cv AND MASK_CLEAR_BANDAGE),
              checks @ [ap_id be])
         | None \<Rightarrow>
             (case ca of
                None \<Rightarrow> (Some TypeError, c, game, checks)
              | Some a \<Rightarrow>
                  (None, log c (LogDebugBandageNoMapping last_world exit_level exit_region a),
                   write_comp game sp2 last_world exit_level exit_region (cv AND MASK_CLEAR_BANDAGE),
                   checks)))
      else (None, c, game, checks))"

definition midplay_bandage_check ::
  "APClient \<Rightarrow> GameInterface \<Rightarrow> int \<Rightarrow> int \<Rightarrow> int \<Rightarrow> string \<Rightarrow> int \<Rightarrow> int \<Rightarrow> int list
     \<Rightarrow> error option \<times> APClient \<times> GameInterface \<times> int list" where
  "midplay_bandage_check c game sp2 last_world last_level old_region ev cv checks =
     (if ev AND FLAG_BANDAGE = 0 \<and> cv AND FLAG_BANDAGE \<noteq> 0 then
        (let ca = comp_addr last_world last_level old_region in
         case bandage_lookup ca of
           Some be \<Rightarrow>
             (None, log c (LogBandageMidplay (ap_id be)),
              write_comp game sp2 last_world last_level old_region (cv AND MASK_CLEAR_BANDAGE),
              checks @ [ap_id be])
         | None \<Rightarrow>
             (case ca of
                None \<Rightarrow> (Some TypeError, c, game, checks)
              | Some a \<Rightarrow>
                  (None, log c (LogDebugBandageNoMapping last_world last_level old_region a),
                   write_comp game sp2 last_world last_level old_region (cv AND MASK_CLEAR_BANDAGE),
                   checks)))
      else (None, c, game, checks))"

text \<open>
  The light/dark branch of the level exit (\<open>elif exit_level >= 0 and exit_region in
  ("light", "dark")\<close>), through the report of its checks. \<open>ev\<close> is
  \<open>entry_comp.get(key, -1)\<close>, the completion byte snapshot taken at level entry.
\<close>

definition level_exit_checks ::
  "slot_options \<Rightarrow> APClient \<Rightarrow> GameInterface \<Rightarrow> int \<Rightarrow> int \<Rightarrow> int \<Rightarrow> string \<Rightarrow> int
     \<Rightarrow> error option \<times> APClient \<times> GameInterface" where
  "level_exit_checks opts c game sp2 last_world exit_level exit_region ev =
     (let cv = read_comp game sp2 last_world exit_level exit_region in
      case (if ev \<ge> 0 \<and> cv \<ge> 0 \<and> ev \<noteq> cv then
              (let checks1 = exit_completion_check c last_world exit_level exit_region ev cv
                               (dark_world_enabled opts) (w7_enabled opts) []
               in case exit_bandage_check c game sp2 last_world exit_level exit_region ev cv checks1 of
                    (err, c2, game2, checks2) \<Rightarrow>
                      (err, check_gotwarp c2 ev cv last_world exit_level exit_region, game2, checks2))
            else if ev \<ge> 0 \<and> cv \<ge> 0 \<and> ev = cv then
              (None, log c (LogDebugExitNoChange last_world exit_level ev cv), game, [])
            else (None, c, game, [])) of
        (Some e, c3, game3, checks3) \<Rightarrow> (Some e, c3, game3)
      | (None, c3, game3, checks3) \<Rightarrow>
          (case check_aplus c3 game3 sp2 last_world exit_level exit_region checks3
                  (aplus_enabled opts) of
             (c4, checks4) \<Rightarrow>
               (case (if checks4 \<noteq> [] then send_location_checks c4 checks4 else (None, c4)) of
                  (err, c5) \<Rightarrow> (err, c5, game3))))"

text \<open>
  The light/dark branch of the level change during play, through the report of its checks.
  \<open>old_region\<close> is \<open>type_to_region(last_lvl_type)\<close>.
\<close>

definition midplay_level_checks ::
  "slot_options \<Rightarrow> APClient \<Rightarrow> GameInterface \<Rightarrow> int \<Rightarrow> int \<Rightarrow> int \<Rightarrow> string option \<Rightarrow> int
     \<Rightarrow> error option \<times> APClient \<times> GameInterface" where
  "midplay_level_checks opts c game sp2 last_world last_level old_region ev =
     (case (case old_region of
              None \<Rightarrow> (None, c, game, [])
            | Some r \<Rightarrow>
                if (r = ''light'' \<or> r = ''dark'') \<and> ev \<ge> 0 then
                  (let cv = read_comp game sp2 last_world last_level r in
                   if ev \<ge> 0 \<and> cv \<ge> 0 \<and> ev \<noteq> cv then
                     (let checks1 = midplay_completion_check c last_world last_level r ev cv
                                      (dark_world_enabled opts) (w7_enabled opts) []
                      in case midplay_bandage_check c game sp2 last_world last_level r ev cv checks1 of
                           (err, c2, game2, checks2) \<Rightarrow>
                             (err, check_gotwarp c2 ev cv last_world last_level r, game2, checks2))
                   else if ev \<ge> 0 \<and> cv \<ge> 0 \<and> ev = cv then
                     (None, log c (LogDebugMidplayNoChange last_world last_level ev cv), game, [])
                   else (None, c, game, []))
                else (None, c, game, [])) of
        (Some e, c3, game3, checks3) \<Rightarrow> (Some e, c3, game3)
      | (None, c3, game3, checks3) \<Rightarrow>
          (case (case old_region of
                   None \<Rightarrow> (c3, checks3)
                 | Some r \<Rightarrow>
                     if r = ''light'' \<or> r = ''dark'' then
                       check_aplus c3 game3 sp2 last_world last_level r checks3 (aplus_enabled opts)
                     else (c3, checks3)) of
             (c4, checks4) \<Rightarrow>
               (case (if checks4 \<noteq> [] then send_location_checks c4 checks4 else (None, c4)) of
                  (err, c5) \<Rightarrow> (err, c5, game3))))"

subsection \<open>Warp zones\<close>

text \<open>
  The warp branches compare the snapshot \<open>warp_entry_slots[last_world]\<close> of the twelve
  completion bytes with the bytes read now. One iteration of the loop of the branch
  "Warp mid-play", for slot \<open>si\<close>:
\<close>

definition midplay_warp_slot ::
  "int \<Rightarrow> int \<Rightarrow> int list \<Rightarrow> int list \<Rightarrow> int \<Rightarrow> APClient \<times> GameInterface \<times> int list
     \<Rightarrow> error option \<times> APClient \<times> GameInterface \<times> int list" where
  "midplay_warp_slot sp2 last_world entry_slots current_slots si s =
     (case s of (c, game, checks) \<Rightarrow>
        (case py_index entry_slots si of
           Inl e \<Rightarrow> (Some e, c, game, checks)
         | Inr sev \<Rightarrow>
             (case py_index current_slots si of
                Inl e \<Rightarrow> (Some e, c, game, checks)
              | Inr scv \<Rightarrow>
                  if sev < 0 \<or> scv < 0 \<or> sev = scv then (None, c, game, checks)
                  else if sev AND FLAG_BANDAGE = 0 \<and> scv AND FLAG_BANDAGE \<noteq> 0 then
                    (let ca = comp_addr last_world si ''warp'';
                         game1 = write_comp game sp2 last_world si ''warp'' (scv AND MASK_CLEAR_BANDAGE)
                     in case bandage_lookup ca of
                          Some be \<Rightarrow> (None, log c (LogBandageMidplay (ap_id be)), game1, checks @ [ap_id be])
                        | None \<Rightarrow> (None, c, game1, checks))
                  else (None, c, game, checks))))"

definition midplay_warp_checks ::
  "APClient \<Rightarrow> GameInterface \<Rightarrow> int \<Rightarrow> int \<Rightarrow> int list \<Rightarrow> error option \<times> APClient \<times> GameInterface" where
  "midplay_warp_checks c game sp2 last_world entry_slots =
     (let current_slots = read_warp_slots game sp2 last_world in
      case run_loop (midplay_warp_slot sp2 last_world entry_slots current_slots)
             [0..NUM_WARP_SLOTS - 1] (c, game, []) of
        (Some e, c1, game1, checks) \<Rightarrow> (Some e, c1, game1)
      | (None, c1, game1, checks) \<Rightarrow>
          (case (if checks \<noteq> [] then send_location_checks c1 checks else (None, c1)) of
             (err, c2) \<Rightarrow> (err, c2, game1)))"

text \<open>
  The body of \<open>if sp2:\<close> at a level change during play, through the report of the checks:
  the warp branch is taken when the world has a warp snapshot. \<open>warp_snapshot\<close> is
  \<open>warp_entry_slots.get(last_world)\<close>. The snapshot of the new level that follows only
  reads.
\<close>

definition midplay_change ::
  "slot_options \<Rightarrow> int \<Rightarrow> int \<Rightarrow> int \<Rightarrow> int list option \<Rightarrow> int \<Rightarrow> APClient \<times> GameInterface
     \<Rightarrow> error option \<times> APClient \<times> GameInterface" where
  "midplay_change opts last_world last_level last_lvl_type warp_snapshot ev s =
     (case s of (c, game) \<Rightarrow>
        (let sp2 = get_sp game in
         if sp2 \<noteq> 0 then
           (case warp_snapshot of
              Some entry_slots \<Rightarrow> midplay_warp_checks c game sp2 last_world entry_slots
            | None \<Rightarrow>
                midplay_level_checks opts c game sp2 last_world last_level
                  (type_to_region last_lvl_type) ev)
         else (None, c, game)))"

text \<open>
  The warp branch of the level exit. Its first loop writes a debug line for every slot;
  for a changed slot the line formats \<open>comp_addr(last_world, si, "warp")\<close> with \<open>:04X\<close>,
  which raises \<open>TypeError\<close> for the worlds 6 and 7.
\<close>

definition warp_exit_debug_slot ::
  "int \<Rightarrow> int list \<Rightarrow> int list \<Rightarrow> int \<Rightarrow> APClient \<Rightarrow> error option \<times> APClient" where
  "warp_exit_debug_slot last_world entry_slots current_slots si c =
     (case py_index entry_slots si of
        Inl e \<Rightarrow> (Some e, c)
      | Inr sev \<Rightarrow>
          (case py_index current_slots si of
             Inl e \<Rightarrow> (Some e, c)
           | Inr scv \<Rightarrow>
               if sev \<noteq> scv then
                 (case comp_addr last_world si ''warp'' of
                    None \<Rightarrow> (Some TypeError, c)
                  | Some ca \<Rightarrow> (None, log c (LogDebugWarpSlot si sev scv ca)))
               else if sev > 0 then (None, log c (LogDebugWarpSlotUnchanged si sev))
               else (None, c)))"

definition warp_exit_slot ::
  "int \<Rightarrow> int \<Rightarrow> int list \<Rightarrow> int list \<Rightarrow> int \<Rightarrow> APClient \<times> GameInterface \<times> int list
     \<Rightarrow> error option \<times> APClient \<times> GameInterface \<times> int list" where
  "warp_exit_slot sp2 last_world entry_slots current_slots si s =
     (case s of (c, game, checks) \<Rightarrow>
        (case py_index entry_slots si of
           Inl e \<Rightarrow> (Some e, c, game, checks)
         | Inr sev \<Rightarrow>
             (case py_index current_slots si of
                Inl e \<Rightarrow> (Some e, c, game, checks)
              | Inr scv \<Rightarrow>
                  if sev < 0 \<or> scv < 0 \<or> sev = scv then (None, c, game, checks)
                  else
                    (case (if sev AND FLAG_BANDAGE = 0 \<and> scv AND FLAG_BANDAGE \<noteq> 0 then
                             (let ca = comp_addr last_world si ''warp'';
                                  game1 = write_comp game sp2 last_world si ''warp''
                                            (scv AND MASK_CLEAR_BANDAGE)
                              in case bandage_lookup ca of
                                   Some be \<Rightarrow> (log c (LogBandage (ap_id be)), game1, checks @ [ap_id be])
                                 | None \<Rightarrow> (c, game1, checks))
                           else (c, game, checks)) of
                       (c1, game1, checks1) \<Rightarrow>
                         (None,
                          (if sev AND FLAG_COMPLETE = 0 \<and> scv AND FLAG_COMPLETE \<noteq> 0
                             then log c1 (LogWarpSubLevel last_world (si div 3) (si mod 3 + 1))
                           else c1),
                          game1, checks1)))))"

text \<open>
  The par-time check of the warp exit, for slot \<open>si\<close>. \<open>current_full\<close> was read before the
  bandage writes; \<open>entry_full\<close> is \<open>warp_entry_full.get(last_world, [(-1, -1.0)] * 12)\<close>.
\<close>

definition warp_exit_aplus_slot ::
  "bool \<Rightarrow> int \<Rightarrow> (int \<times> pyfloat) list \<Rightarrow> (int \<times> pyfloat) list \<Rightarrow> int \<Rightarrow> APClient \<times> int list
     \<Rightarrow> error option \<times> APClient \<times> int list" where
  "warp_exit_aplus_slot aplus_en last_world entry_full current_full si s =
     (case s of (c, checks) \<Rightarrow>
        (case py_index current_full si of
           Inl e \<Rightarrow> (Some e, c, checks)
         | Inr (curr_comp, curr_time) \<Rightarrow>
             if curr_comp < 0 \<or> curr_comp AND FLAG_COMPLETE = 0 then (None, c, checks)
             else if fl_le curr_time (Finite 0) then (None, c, checks)
             else
               (case get_par_time last_world si ''warp'' of
                  None \<Rightarrow> (None, c, checks)
                | Some par \<Rightarrow>
                    if fl_less (Finite par) curr_time then (None, c, checks)
                    else
                      (let old_time = (if si < int (length entry_full) then snd (entry_full ! nat si)
                                       else Finite (- 1.0));
                           was_aplus = (fl_less (Finite 0) old_time \<and> fl_le old_time (Finite par))
                       in
                       if \<not> was_aplus then
                         (case get_aplus_location_id last_world si ''warp'' of
                            None \<Rightarrow> (None, c, checks)
                          | Some aplus_id \<Rightarrow>
                              if aplus_id \<noteq> 0 \<and> aplus_id \<notin> locations_checked c
                                 \<and> aplus_id \<notin> aplus_logged c then
                                (let c1 = log (c\<lparr>aplus_logged := insert aplus_id (aplus_logged c)\<rparr>)
                                            (LogAPlusWarp last_world si curr_time par)
                                 in if aplus_en then (None, c1, checks @ [aplus_id])
                                    else (None, c1, checks))
                              else (None, c, checks))
                       else (None, c, checks)))))"

definition CHARACTER_WARPS :: "int \<Rightarrow> int option" where
  "CHARACTER_WARPS = [1 \<mapsto> 12, 2 \<mapsto> 8, 3 \<mapsto> 16, 4 \<mapsto> 18, 5 \<mapsto> 7]"

definition CHARACTER_WARP_SLOTS :: "int list" where
  "CHARACTER_WARP_SLOTS = [3, 4, 5]"

definition character_unlock_location_id :: "int \<Rightarrow> int" where
  "character_unlock_location_id world = BASE_ID + 850 + world"

definition warp_completion_location_id :: "int \<Rightarrow> int \<Rightarrow> int" where
  "warp_completion_location_id world zone_index = BASE_ID + 861 + (world - 1) * 4 + zone_index"

definition slot_complete :: "GameInterface \<Rightarrow> int \<Rightarrow> int \<Rightarrow> int \<Rightarrow> bool" where
  "slot_complete game sp world slot_idx =
     (let comp = read_comp game sp world slot_idx ''warp'' in
      \<not> (comp < 0 \<or> comp AND FLAG_COMPLETE = 0))"

definition check_character_unlock ::
  "APClient \<Rightarrow> GameInterface \<Rightarrow> int \<Rightarrow> int \<Rightarrow> int list \<Rightarrow> bool \<Rightarrow> monitor
     \<Rightarrow> APClient \<times> int list \<times> monitor" where
  "check_character_unlock c game sp world checks char_warp_en m =
     (if \<not> char_warp_en \<or> CHARACTER_WARPS world = None then (c, checks, m)
      else if world \<in> characters_unlocked m then (c, checks, m)
      else if \<not> list_all (slot_complete game sp world) CHARACTER_WARP_SLOTS then (c, checks, m)
      else
        (let m1 = m\<lparr>characters_unlocked := insert world (characters_unlocked m)\<rparr>;
             char_id = character_unlock_location_id world
         in if char_id \<notin> locations_checked c
              then (log c (LogCharacterUnlocked world), checks @ [char_id], m1)
            else (c, checks, m1)))"

definition warp_zone_step ::
  "GameInterface \<Rightarrow> int \<Rightarrow> int \<Rightarrow> int \<Rightarrow> APClient \<times> int list \<times> monitor \<Rightarrow> APClient \<times> int list \<times> monitor" where
  "warp_zone_step game sp world zone_idx s =
     (case s of (c, checks, m) \<Rightarrow>
        if (world, zone_idx) \<in> warps_completed m then (c, checks, m)
        else if list_all (\<lambda>sub. slot_complete game sp world (zone_idx * 3 + sub)) [0, 1, 2] then
          (let m1 = m\<lparr>warps_completed := insert (world, zone_idx) (warps_completed m)\<rparr>;
               wc_id = warp_completion_location_id world zone_idx
           in if wc_id \<notin> locations_checked c
                then (log c (LogWarpComplete world zone_idx), checks @ [wc_id], m1)
              else (c, checks, m1))
        else (c, checks, m))"

definition check_warp_completion ::
  "APClient \<Rightarrow> GameInterface \<Rightarrow> int \<Rightarrow> int \<Rightarrow> int list \<Rightarrow> bool \<Rightarrow> monitor
     \<Rightarrow> APClient \<times> int list \<times> monitor" where
  "check_warp_completion c game sp world checks warp_complete_en m =
     (if \<not> warp_complete_en \<or> world > 5 then (c, checks, m)
      else fold (warp_zone_step game sp world) [0, 1, 2, 3] (c, checks, m))"

text \<open>The warp branch of the level exit (\<open>if was_warp:\<close>), through the report of its checks.\<close>

definition warp_exit_checks ::
  "slot_options \<Rightarrow> APClient \<Rightarrow> GameInterface \<Rightarrow> monitor \<Rightarrow> int \<Rightarrow> int \<Rightarrow> int list
     \<Rightarrow> (int \<times> pyfloat) list \<Rightarrow> error option \<times> APClient \<times> GameInterface \<times> monitor" where
  "warp_exit_checks opts c game m sp2 last_world entry_slots entry_full =
     (let current_slots = read_warp_slots game sp2 last_world;
          current_full = read_warp_slots_full game sp2 last_world
      in
      case run_loop (warp_exit_debug_slot last_world entry_slots current_slots)
             [0..NUM_WARP_SLOTS - 1] c of
        (Some e, c1) \<Rightarrow> (Some e, c1, game, m)
      | (None, c1) \<Rightarrow>
          (case run_loop (warp_exit_slot sp2 last_world entry_slots current_slots)
                  [0..NUM_WARP_SLOTS - 1] (c1, game, []) of
             (Some e, c2, game2, checks2) \<Rightarrow> (Some e, c2, game2, m)
           | (None, c2, game2, checks2) \<Rightarrow>
               (case run_loop (warp_exit_aplus_slot (aplus_enabled opts) last_world entry_full current_full)
                       [0..NUM_WARP_SLOTS - 1] (c2, checks2) of
                  (Some e, c3, checks3) \<Rightarrow> (Some e, c3, game2, m)
                | (None, c3, checks3) \<Rightarrow>
                    (case check_character_unlock c3 game2 sp2 last_world checks3
                            (char_warp_enabled opts) m of
                       (c4, checks4, m4) \<Rightarrow>
                         (case check_warp_completion c4 game2 sp2 last_world checks4
                                 (warp_complete_enabled opts) m4 of
                            (c5, checks5, m5) \<Rightarrow>
                              (case (if checks5 \<noteq> [] then send_location_checks c5 checks5
                                     else (None, c5)) of
                                 (err, c6) \<Rightarrow> (err, c6, game2, m5)))))))"

text \<open>
  The body of \<open>if sp2 and last_world > 0:\<close> at a level exit, through the report of the
  checks of the branch taken: the boss detection, then the warp branch when the world has a
  warp snapshot (\<open>was_warp\<close>), else the light/dark branch. \<open>warp_snapshot\<close> is
  \<open>warp_entry_slots.get(last_world)\<close>. The statements of a branch after its report (the
  achievement check and the re-enforcement of counters, locks and the character bitmask)
  and the sweep that ends the exit are not part of this definition.
\<close>

definition level_exit ::
  "slot_options \<Rightarrow> int \<Rightarrow> int \<Rightarrow> int \<Rightarrow> int list option \<Rightarrow> (int \<times> pyfloat) list \<Rightarrow> int
     \<Rightarrow> APClient \<times> GameInterface \<times> monitor \<Rightarrow> error option \<times> APClient \<times> GameInterface \<times> monitor" where
  "level_exit opts last_world last_level last_lvl_type warp_snapshot entry_full ev s =
     (case s of (c, game, m) \<Rightarrow>
        (let sp2 = get_sp game in
         if sp2 \<noteq> 0 \<and> last_world > 0 then
           (let m1 = (if last_level = 99 \<and> 1 \<le> last_world \<and> last_world \<le> 7 then
                        m\<lparr>pending_boss_world := last_world,
                          pending_boss_dark := (last_world = 6 \<and> last_lvl_type = TYPE_DARK)\<rparr>
                      else m);
                exit_level = (if last_level < 99 then last_level else - 1);
                exit_region = type_to_region last_lvl_type
            in
            case warp_snapshot of
              Some entry_slots \<Rightarrow>
                warp_exit_checks opts c game m1 sp2 last_world entry_slots entry_full
            | None \<Rightarrow>
                (case exit_region of
                   None \<Rightarrow> (None, c, game, m1)
                 | Some r \<Rightarrow>
                     if exit_level \<ge> 0 \<and> (r = ''light'' \<or> r = ''dark'') then
                       (case level_exit_checks opts c game sp2 last_world exit_level r ev of
                          (err, c1, game1) \<Rightarrow> (err, c1, game1, m1))
                     else (None, c, game, m1)))
         else (None, c, game, m)))"

subsection \<open>Sweeps\<close>

text \<open>
  The two calls of \<open>_aplus_sweep\<close> in \<open>game_monitor\<close>: on the level select screen, and at
  the end of a level exit. Both report what the sweep queued.
\<close>

definition sweep_and_report ::
  "slot_options \<Rightarrow> APClient \<Rightarrow> GameInterface \<Rightarrow> int \<Rightarrow> int \<Rightarrow> error option \<times> APClient" where
  "sweep_and_report opts c game sp world =
     (case aplus_sweep c game sp world (aplus_enabled opts) (dark_world_enabled opts)
             (w7_enabled opts) of
        (c1, sweep_checks) \<Rightarrow>
          if sweep_checks \<noteq> [] then send_location_checks c1 sweep_checks else (None, c1))"

definition level_select_sweep ::
  "slot_options \<Rightarrow> int \<Rightarrow> int \<Rightarrow> int \<Rightarrow> int \<Rightarrow> int \<Rightarrow> int \<Rightarrow> APClient \<Rightarrow> GameInterface \<Rightarrow> int
     \<Rightarrow> error option \<times> APClient" where
  "level_select_sweep opts playing ui_state world last_playing last_ui_state poll_count c game sp =
     (let on_level_select = (playing = 0 \<and> ui_state = 1 \<and> 1 \<le> world \<and> world \<le> 7) in
      if on_level_select \<and> aplus_enabled opts then
        (let just_arrived = (last_playing = 1 \<or> last_ui_state \<noteq> 1) in
         if just_arrived \<or> poll_count mod 500 = 499 then sweep_and_report opts c game sp world
         else (None, c))
      else (None, c))"

definition exit_sweep ::
  "slot_options \<Rightarrow> APClient \<Rightarrow> GameInterface \<Rightarrow> int \<Rightarrow> int \<Rightarrow> error option \<times> APClient" where
  "exit_sweep opts c game sp2 last_world =
     (if aplus_enabled opts \<and> 1 \<le> last_world \<and> last_world \<le> 7
        then sweep_and_report opts c game sp2 last_world
      else (None, c))"

section \<open>Example states\<close>

text \<open>
  A packing function for the example states: the single nearest to a float, ties to the
  even fraction, as the conversion to \<open>c_float\<close> rounds. \<open>norm_exp\<close> scales a positive
  number into the range of a 24-bit fraction.
\<close>

fun norm_exp :: "nat \<Rightarrow> real \<Rightarrow> int \<Rightarrow> real \<times> int" where
  "norm_exp 0 x e = (x, e)"
| "norm_exp (Suc n) x e =
     (if x \<ge> 2 ^ 24 then norm_exp n (x / 2) (e + 1)
      else if x < 2 ^ 23 then norm_exp n (x * 2) (e - 1)
      else (x, e))"

definition round_even :: "real \<Rightarrow> int" where
  "round_even x =
     (let f = \<lfloor>x\<rfloor>; d = x - of_int f in
      if d < 1 / 2 then f else if d > 1 / 2 then f + 1 else if even f then f else f + 1)"

definition single_bits :: "pyfloat \<Rightarrow> int" where
  "single_bits x =
     (case x of
        NaN \<Rightarrow> 0x7FC00000
      | PosInf \<Rightarrow> 0x7F800000
      | NegInf \<Rightarrow> 0xFF800000
      | Finite r \<Rightarrow>
          (let s = (if r < 0 then 2 ^ 31 else 0); a = \<bar>r\<bar> in
           if a = 0 then s
           else
             (case norm_exp 400 a 0 of
                (mant, e) \<Rightarrow>
                  (let be = e + 150 in
                   if be \<ge> 255 then s + 0x7F800000
                   else if be \<le> 0 then s + round_even (a * 2 ^ 149)
                   else
                     (let m = round_even mant in
                      if m = 2 ^ 24 then
                        (if be + 1 \<ge> 255 then s + 0x7F800000 else s + (be + 1) * 2 ^ 23)
                      else s + be * 2 ^ 23 + (m - 2 ^ 23))))))"


definition memory_all :: "8 word \<Rightarrow> process_memory" where
  "memory_all b = \<lparr>byte_at = (\<lambda>a. b), readable = (\<lambda>a. True), writable = (\<lambda>a. True)\<rparr>"

definition game_all :: "8 word \<Rightarrow> GameInterface" where
  "game_all b =
     \<lparr>pm = Some (memory_all b), base = 0x400000, game_connected = True, pack_float = single_bits\<rparr>"



definition game_eleven :: GameInterface where
  "game_eleven = game_all 11"

text \<open>The same memory when no page of the process can be written.\<close>

definition game_readonly :: "8 word \<Rightarrow> GameInterface" where
  "game_readonly b = (game_all b)\<lparr>pm := Some ((memory_all b)\<lparr>writable := (\<lambda>a. False)\<rparr>)\<rparr>"

definition client_online :: APClient where
  "client_online = init_client\<lparr>ws := Some SocketOpen\<rparr>"

definition costs_w1_3 :: "(int \<times> int) list" where
  "costs_w1_3 = make_boss_token_costs (\<lambda>w. if w = 1 then 3 else 0)"


text \<open>Options of a session: goal 0 (beat the Rapture boss) with 10 bandages required.\<close>

definition options_goal0 :: slot_options where
  "options_goal0 =
     \<lparr>goal = 0, bandages_req = 10, dark_world_enabled = True, aplus_enabled = True,
      w7_enabled = False, achievements_enabled = False, boss_tokens_enabled = True,
      boss_token_costs = costs_w1_3, opt_dark_lock_enabled = False,
      char_warp_enabled = False, warp_complete_enabled = False\<rparr>"

text \<open>
  A connected client with three bandages, and the monitor's local variables when the boss
  level of world 5 has just been left.
\<close>

definition client_three_bandages :: APClient where
  "client_three_bandages = client_online\<lparr>connected := True, bandage_count := 3\<rparr>"

definition monitor_start :: monitor where
  "monitor_start =
     \<lparr>milestones_sent = {}, pending_boss_world = 0, pending_boss_dark = False, bosses_beaten = {},
      characters_unlocked = {}, warps_completed = {}\<rparr>"

definition monitor_boss5 :: monitor where
  "monitor_boss5 = monitor_start\<lparr>pending_boss_world := 5\<rparr>"

section \<open>Observations used in the statements\<close>

text \<open>
  Every world in \<open>boss_unlocked\<close> got there by reaching its positive token cost: the
  state that \<open>_update_boss_tokens\<close> maintains, starting from the empty set of \<open>__init__\<close>.
\<close>

definition unlocks_justified :: "(int \<times> int) list \<Rightarrow> APClient \<Rightarrow> bool" where
  "unlocks_justified costs c \<longleftrightarrow>
     finite (boss_unlocked c)
     \<and> (\<forall>w \<in> boss_unlocked c. \<exists>(w', needed) \<in> set costs.
           w' = w \<and> 0 < needed \<and> needed \<le> get_count (boss_token_counts c) w)"

text \<open>
  The boss counter of world \<open>w\<close> can be read and written through the save pointer \<open>sp\<close>:
  the interface is attached, the pointer is not null and the byte of the counter is
  readable and writable.
\<close>

definition counter_accessible :: "GameInterface \<Rightarrow> int \<Rightarrow> int \<Rightarrow> bool" where
  "counter_accessible game sp w =
     (case (BOSS_COUNTER_OFFSETS w, pm game) of
        (Some offset, Some m) \<Rightarrow> sp \<noteq> 0 \<and> readable m (sp + offset) \<and> writable m (sp + offset)
      | _ \<Rightarrow> False)"

text \<open>
  The dark-lock passes change the remembered times and the marker set of the client and
  nothing else of it.
\<close>

definition times_only :: "APClient \<Rightarrow> APClient \<Rightarrow> bool" where
  "times_only c c' \<longleftrightarrow>
     boss_unlocked c' = boss_unlocked c \<and> boss_token_counts c' = boss_token_counts c
     \<and> boss_token_count c' = boss_token_count c \<and> allowed_worlds c' = allowed_worlds c
     \<and> character_bits c' = character_bits c \<and> bandage_count c' = bandage_count c
     \<and> dark_access_counts c' = dark_access_counts c
     \<and> locations_checked c' = locations_checked c
     \<and> dark_lock_enabled c' = dark_lock_enabled c
     \<and> dark_unlocks_per_world c' = dark_unlocks_per_world c \<and> outbox c' = outbox c
     \<and> logged c' = logged c \<and> aplus_logged c' = aplus_logged c
     \<and> goal_completed c' = goal_completed c \<and> connected c' = connected c \<and> ws c' = ws c
     \<and> items_received c' = items_received c \<and> items_processed c' = items_processed c"

section \<open>Loops and the fields they leave alone\<close>



lemma times_only_refl [simp]: "times_only c c"
  by (simp add: times_only_def)

lemma times_only_upd [simp]:
  "times_only c (c'\<lparr>real_best_times := R\<rparr>) = times_only c c'"
  "times_only c (c'\<lparr>fake_aplus_times := F\<rparr>) = times_only c c'"
  by (simp_all add: times_only_def)


lemma dark_level_unlocked_times:
  "times_only c c' \<Longrightarrow> dark_level_unlocked c' w li = dark_level_unlocked c w li"
  by (simp add: dark_level_unlocked_def times_only_def Let_def)






text \<open>\<open>_update_boss_tokens\<close> changes \<open>boss_unlocked\<close> and nothing else of the client.\<close>

lemma ubt_only_unlocked:
  "\<exists>U. boss_unlocked c \<subseteq> U
       \<and> fst (snd (update_boss_tokens_loop sp costs c game newly)) = c\<lparr>boss_unlocked := U\<rparr>"
proof (induction sp costs c game newly rule: update_boss_tokens_loop.induct)
  case (1 sp c game newly)
  show ?case by (rule exI [of _ "boss_unlocked c"]) simp
next
  case (2 sp w needed rest c game newly)
  show ?case
  proof (cases "needed \<le> 0 \<or> w \<in> boss_unlocked c")
    case True
    with 2(1) show ?thesis by simp
  next
    case nskip: False
    show ?thesis
    proof (cases "get_count (boss_token_counts c) w \<ge> needed")
      case False
      with nskip 2(3) show ?thesis by simp
    next
      case True
      let ?c1 = "c\<lparr>boss_unlocked := insert w (boss_unlocked c)\<rparr>"
      show ?thesis
      proof (cases "BOSS_UNLOCK_THRESHOLDS w")
        case None
        with nskip True show ?thesis
          by (intro exI [of _ "insert w (boss_unlocked c)"]) (auto simp: Let_def)
      next
        case (Some T)
        from 2(2) [OF nskip True refl Some]
        obtain U where U: "boss_unlocked ?c1 \<subseteq> U"
          "fst (snd (update_boss_tokens_loop sp rest ?c1 (write_boss_counter game sp w T) (newly @ [w])))
             = ?c1\<lparr>boss_unlocked := U\<rparr>"
          by blast
        with nskip True Some show ?thesis
          by (intro exI [of _ U]) (auto simp: Let_def)
      qed
    qed
  qed
qed


section \<open>Address resolution\<close>









section \<open>Bandage grant targets\<close>

lemma fold_bandage_None:
  assumes "m ca = None"
    and "\<forall>b \<in> set bs. gd_comp_addr WORLD_BASES_data (b_world b) (b_index b) (b_region b) \<noteq> Some ca"
  shows "fold (\<lambda>b m. case gd_comp_addr WORLD_BASES_data (b_world b) (b_index b) (b_region b) of
                        Some ca \<Rightarrow> m(ca \<mapsto> b)
                      | None \<Rightarrow> m) bs m ca = None"
  using assms by (induction bs arbitrary: m) (auto split: option.splits)

lemma bandage_key_addresses:
  "List.map_filter (\<lambda>b. gd_comp_addr WORLD_BASES_data (b_world b) (b_index b) (b_region b))
     CORRECTED_BANDAGE_DATA =
     [136, 172, 196, 220, 244, 304, 328, 736, 772, 832, 868, 904, 928, 952,
      1348, 1360, 1384, 1456, 1468, 1552, 1576, 1984, 2032, 2068, 2116, 2152, 2164, 2200,
      2620, 2644, 2692, 2728, 2776, 2800, 2824, 364, 388, 448, 496, 508, 532, 556,
      1000, 1024, 1036, 1072, 1096, 1132, 1144, 1612, 1636, 1648, 1660, 1744, 1768, 1804,
      2236, 2248, 2296, 2320, 2368, 2416, 2428, 2872, 2884, 2920, 2944, 2956, 3028, 3040,
      580, 592, 664, 676, 700, 712, 1204, 1228, 1276, 1288, 1312, 1336, 1828, 1852,
      1900, 1924, 1948, 1960, 2464, 2476, 2536, 2548, 2572, 2584, 3088, 3100, 3148, 3172,
      3184, 3196]"
  by code_simp

lemma in_map_filter: "f x = Some y \<Longrightarrow> x \<in> set xs \<Longrightarrow> y \<in> set (List.map_filter f xs)"
  by (induction xs) (auto split: option.splits)

lemma BANDAGE_BY_ADDR_None:
  assumes "ca \<notin> set (List.map_filter
      (\<lambda>b. gd_comp_addr WORLD_BASES_data (b_world b) (b_index b) (b_region b)) CORRECTED_BANDAGE_DATA)"
  shows "BANDAGE_BY_ADDR ca = None"
proof -
  have "\<forall>b \<in> set CORRECTED_BANDAGE_DATA.
          gd_comp_addr WORLD_BASES_data (b_world b) (b_index b) (b_region b) \<noteq> Some ca"
    using assms by (auto dest: in_map_filter)
  then show ?thesis
    unfolding BANDAGE_BY_ADDR_def CORRECTED_BANDAGE_BY_ADDR_def
    by (intro fold_bandage_None) simp_all
qed

lemma grant_targets_listed:
  "BANDAGE_GRANT_TARGETS =
     [(1, 0, ''light''), (1, 1, ''light''), (1, 2, ''light''), (1, 4, ''light''), (1, 5, ''light''),
      (1, 7, ''light''), (1, 9, ''light''), (1, 11, ''light''), (1, 13, ''light''), (1, 14, ''light''),
      (1, 15, ''light''), (1, 16, ''light''), (1, 18, ''light''), (2, 0, ''light''), (2, 2, ''light''),
      (2, 3, ''light''), (2, 5, ''light''), (2, 6, ''light''), (2, 7, ''light''), (2, 8, ''light''),
      (2, 10, ''light''), (2, 11, ''light''), (2, 13, ''light''), (2, 14, ''light''), (2, 16, ''light''),
      (2, 18, ''light''), (3, 2, ''light''), (3, 4, ''light''), (3, 5, ''light''), (3, 6, ''light''),
      (3, 7, ''light''), (3, 8, ''light''), (3, 11, ''light''), (3, 12, ''light''), (3, 13, ''light''),
      (3, 14, ''light''), (3, 15, ''light''), (3, 16, ''light''), (3, 18, ''light''), (4, 0, ''light''),
      (4, 2, ''light''), (4, 3, ''light''), (4, 4, ''light''), (4, 6, ''light''), (4, 7, ''light''),
      (4, 9, ''light''), (4, 10, ''light''), (4, 11, ''light''), (4, 13, ''light''), (4, 14, ''light''),
      (4, 17, ''light''), (4, 18, ''light''), (5, 0, ''light''), (5, 1, ''light''), (5, 3, ''light''),
      (5, 5, ''light''), (5, 6, ''light''), (5, 7, ''light''), (5, 9, ''light''), (5, 10, ''light''),
      (5, 12, ''light''), (5, 13, ''light''), (5, 14, ''light''), (5, 16, ''light''), (5, 18, ''light''),
      (1, 0, ''dark''), (1, 1, ''dark''), (1, 3, ''dark''), (1, 5, ''dark''), (1, 6, ''dark''),
      (1, 7, ''dark''), (1, 8, ''dark''), (1, 10, ''dark''), (1, 11, ''dark''), (1, 12, ''dark''),
      (1, 15, ''dark''), (1, 17, ''dark''), (1, 19, ''dark''), (2, 0, ''dark''), (2, 1, ''dark''),
      (2, 2, ''dark''), (2, 4, ''dark''), (2, 7, ''dark''), (2, 8, ''dark''), (2, 10, ''dark''),
      (2, 12, ''dark''), (2, 13, ''dark''), (2, 16, ''dark''), (2, 17, ''dark''), (2, 18, ''dark''),
      (2, 19, ''dark''), (3, 0, ''dark''), (3, 1, ''dark''), (3, 3, ''dark''), (3, 7, ''dark''),
      (3, 8, ''dark''), (3, 9, ''dark''), (3, 10, ''dark''), (3, 11, ''dark''), (3, 12, ''dark''),
      (3, 14, ''dark''), (3, 16, ''dark''), (3, 17, ''dark''), (3, 19, ''dark''), (4, 0, ''dark''),
      (4, 1, ''dark''), (4, 4, ''dark''), (4, 5, ''dark''), (4, 6, ''dark''), (4, 8, ''dark''),
      (4, 10, ''dark''), (4, 11, ''dark''), (4, 12, ''dark''), (4, 14, ''dark''), (4, 15, ''dark''),
      (4, 16, ''dark''), (4, 19, ''dark''), (5, 0, ''dark''), (5, 1, ''dark''), (5, 2, ''dark''),
      (5, 5, ''dark''), (5, 6, ''dark''), (5, 8, ''dark''), (5, 11, ''dark''), (5, 12, ''dark''),
      (5, 13, ''dark''), (5, 14, ''dark''), (5, 15, ''dark''), (5, 18, ''dark''), (5, 19, ''dark'')]"
  by code_simp


lemma grant_targets_checked:
  "list_all (\<lambda>(w, li, r).
       1 \<le> w \<and> w \<le> 5 \<and> 0 \<le> li \<and> li < 20
     \<and> ((r = ''light'' \<and> li + 1 \<notin> set (get_list LIGHT_BANDAGE_LEVELS w))
        \<or> (r = ''dark'' \<and> li + 1 \<notin> set (get_list DARK_BANDAGE_LEVELS w)))
     \<and> (case comp_addr w li r of
           Some ca \<Rightarrow> ca \<notin> set (List.map_filter
              (\<lambda>b. gd_comp_addr WORLD_BASES_data (b_world b) (b_index b) (b_region b)) CORRECTED_BANDAGE_DATA)
         | None \<Rightarrow> False))
     BANDAGE_GRANT_TARGETS"
  unfolding bandage_key_addresses grant_targets_listed
  by (simp add: comp_addr_def gd_comp_addr_def gd_slot_addr_def WORLD_BASES_def WORLD_BASES_data_def
        LIGHT_OFFSET_def DARK_OFFSET_def SLOT_SIZE_def COMP_BYTE_def get_list_def
        LIGHT_BANDAGE_LEVELS_def DARK_BANDAGE_LEVELS_def)

text \<open>
  Claim C10. Every entry of \<open>BANDAGE_GRANT_TARGETS\<close> is a light or dark level 0..19 of a
  world 1..5 whose 1-indexed level number is not in the bandage table of its region, and
  its completion-byte address is not a key of the bandage lookup table: the lookup that the
  diff and scan paths make before crediting a bandage returns \<open>None\<close> there.
\<close>

theorem grant_targets_never_bandage_keys:
  "\<forall>(w, li, r) \<in> set BANDAGE_GRANT_TARGETS.
       1 \<le> w \<and> w \<le> 5 \<and> 0 \<le> li \<and> li < 20
     \<and> ((r = ''light'' \<and> li + 1 \<notin> set (get_list LIGHT_BANDAGE_LEVELS w))
        \<or> (r = ''dark'' \<and> li + 1 \<notin> set (get_list DARK_BANDAGE_LEVELS w)))
     \<and> (\<exists>ca. comp_addr w li r = Some ca \<and> BANDAGE_BY_ADDR ca = None)"
proof (clarify)
  fix w li r
  assume "(w, li, r) \<in> set BANDAGE_GRANT_TARGETS"
  with grant_targets_checked
  have *: "1 \<le> w \<and> w \<le> 5 \<and> 0 \<le> li \<and> li < 20
     \<and> ((r = ''light'' \<and> li + 1 \<notin> set (get_list LIGHT_BANDAGE_LEVELS w))
        \<or> (r = ''dark'' \<and> li + 1 \<notin> set (get_list DARK_BANDAGE_LEVELS w)))
     \<and> (case comp_addr w li r of
           Some ca \<Rightarrow> ca \<notin> set (List.map_filter
              (\<lambda>b. gd_comp_addr WORLD_BASES_data (b_world b) (b_index b) (b_region b)) CORRECTED_BANDAGE_DATA)
         | None \<Rightarrow> False)"
    by (auto simp: list_all_iff)
  then obtain ca where ca: "comp_addr w li r = Some ca"
    and notin: "ca \<notin> set (List.map_filter
              (\<lambda>b. gd_comp_addr WORLD_BASES_data (b_world b) (b_index b) (b_region b)) CORRECTED_BANDAGE_DATA)"
    by (cases "comp_addr w li r") auto
  from notin have "BANDAGE_BY_ADDR ca = None" by (rule BANDAGE_BY_ADDR_None)
  with * ca
  show "1 \<le> w \<and> w \<le> 5 \<and> 0 \<le> li \<and> li < 20
     \<and> ((r = ''light'' \<and> li + 1 \<notin> set (get_list LIGHT_BANDAGE_LEVELS w))
        \<or> (r = ''dark'' \<and> li + 1 \<notin> set (get_list DARK_BANDAGE_LEVELS w)))
     \<and> (\<exists>ca. comp_addr w li r = Some ca \<and> BANDAGE_BY_ADDR ca = None)"
    by blast
qed

theorem grant_targets_witness:
  "(1, 0, ''light'') \<in> set BANDAGE_GRANT_TARGETS
   \<and> 1 \<notin> set (get_list LIGHT_BANDAGE_LEVELS 1)
   \<and> comp_addr 1 0 ''light'' = Some 100 \<and> BANDAGE_BY_ADDR 100 = None"
  using grant_targets_never_bandage_keys [THEN bspec, of "(1, 0, ''light'')"]
  by (simp add: grant_targets_listed comp_addr_def gd_comp_addr_def gd_slot_addr_def
        WORLD_BASES_def WORLD_BASES_data_def LIGHT_OFFSET_def SLOT_SIZE_def COMP_BYTE_def)

section \<open>The goal after a boss defeat\<close>

lemmas goal_eval_defs = pending_boss_check_def boss_confirmed_block_def goal_checks_def
  send_location_checks_def send_goal_complete_def send_message_def log_def Let_def
  options_goal0_def client_three_bandages_def client_online_def init_client_def monitor_boss5_def
  monitor_start_def
  boss_location_id_def dark_boss_location_id_def BASE_ID_def


text \<open>
  Claim C4, evaluated where it fails. The goal is "beat the Rapture boss" with 10 bandages
  required. A confirmed defeat of the world 5 boss with 3 bandages reports the boss
  location, logs the shortfall and leaves the goal open. After the bandage count has
  reached 10, a second confirmed defeat of the same boss finds the boss location in
  \<open>locations_checked\<close> and skips the goal checks together with the report: the goal stays
  open and no \<open>StatusUpdate\<close> is sent, although the boss condition and the bandage
  threshold both hold at that evaluation. The same defeat with 10 bandages and an
  unreported boss location does complete the goal.
\<close>

theorem goal_not_reevaluated_after_shortfall:
  "(case pending_boss_check options_goal0 0 3 1.5 (client_three_bandages, monitor_boss5) of
      (err1, c1, m1) \<Rightarrow>
        err1 = None
        \<and> \<not> goal_completed c1
        \<and> outbox c1 = [LocationChecks [7700105]]
        \<and> logged c1 = [LogChecked 7700105, LogBossDefeated 5 False, LogGoalNotMet 10 3]
        \<and> pending_boss_world m1 = 0
        \<and> (case pending_boss_check options_goal0 0 3 1.5
                   (c1\<lparr>bandage_count := 10\<rparr>, m1\<lparr>pending_boss_world := 5\<rparr>) of
              (err2, c2, m2) \<Rightarrow>
                err2 = None
                \<and> bandages_req options_goal0 \<le> bandage_count c2
                \<and> \<not> goal_completed c2
                \<and> outbox c2 = [LocationChecks [7700105]]
                \<and> logged c2 = logged c1))
   \<and> goal_completed (fst (snd (pending_boss_check options_goal0 0 3 1.5
         (client_three_bandages\<lparr>bandage_count := 10\<rparr>, monitor_boss5))))"
  by (simp add: goal_eval_defs)
section \<open>The memory access helpers\<close>









lemma upto_11: "[0..11] = [0, 1, 2, 3, 4, 5, 6, 7, 8, 9, 10, 11 :: int]"
  by code_simp

lemma upto_0_11: "[0..NUM_WARP_SLOTS - 1] = [0, 1, 2, 3, 4, 5, 6, 7, 8, 9, 10, 11]"
  by (simp add: NUM_WARP_SLOTS_def upto_11)











text \<open>What a write of the process memory does when it succeeds, and when it fails.\<close>

lemma pm_write_uchar_cases:
  "(pm_write_uchar game a v = Inl e \<longrightarrow> (pm game = None \<or> (\<exists>m. pm game = Some m \<and> \<not> writable m a)))
   \<and> (pm_write_uchar game a v = Inr game' \<longrightarrow>
        (\<exists>m. pm game = Some m \<and> writable m a
              \<and> game' = game\<lparr>pm := Some (m\<lparr>byte_at := (byte_at m)(a := word_of_int v)\<rparr>)\<rparr>))"
  by (auto simp: pm_write_uchar_def split: option.splits if_splits)



section \<open>Boss counters\<close>




lemma acc_write [simp]:
  "counter_accessible (write_boss_counter g sp w' v) sp w = counter_accessible g sp w"
  by (auto simp: counter_accessible_def write_boss_counter_def pm_write_uchar_def
        split: option.splits)




lemma reraise_acc [simp]: "counter_accessible (reraise_unlocked sp w' g) sp w = counter_accessible g sp w"
  by (simp add: reraise_unlocked_def Let_def split: option.splits)

lemma suppress_acc [simp]: "counter_accessible (suppress_locked c sp w' g) sp w = counter_accessible g sp w"
  by (simp add: suppress_locked_def Let_def)









lemma fold_reraise_acc [simp]:
  "counter_accessible (fold (reraise_unlocked sp) wl g) sp w = counter_accessible g sp w"
  by (induction wl arbitrary: g) simp_all

lemma fold_suppress_acc [simp]:
  "counter_accessible (fold (suppress_locked c sp) wl g) sp w = counter_accessible g sp w"
  by (induction wl arbitrary: g) simp_all

lemma enforce_acc [simp]:
  "counter_accessible (enforce_boss_counters c game sp costs) sp w = counter_accessible game sp w"
  by (simp add: enforce_boss_counters_def Let_def)










lemma ubt_acc [simp]:
  "counter_accessible (fst (snd (snd (update_boss_tokens_loop sp costs c game newly)))) sp w
     = counter_accessible game sp w"
  by (induction sp costs c game newly rule: update_boss_tokens_loop.induct)
     (auto simp: Let_def split: option.splits)







lemma justified_logged [simp]: "unlocks_justified costs (c\<lparr>logged := l\<rparr>) = unlocks_justified costs c"
  by (simp add: unlocks_justified_def)
















end
